theory Spec2Isabelle
  imports Main "HOL-Library.Word"
begin

text \<open>
  A model of the kenno-api password handlers: the checksum \<open>hashPassword\<close>, the
  HubDB lookups and updates, the login handler, the three reset handlers and the
  change handler, as functions on an explicit world (the two versions of the table,
  the calls made on the table service, the console).  The theorems relate the
  handlers to the verifier of the specification and settle what the handlers
  answer, and what they leave in the table, for valid, invalid, unknown and
  mismatching requests and when the table service fails.
\<close>

section \<open>JavaScript strings and the password checksum\<close>

text \<open>
  A JavaScript string is a sequence of UTF-16 code units: \<open>s.length\<close> counts them and
  \<open>s.charCodeAt(i)\<close> reads the \<open>i\<close>-th one as a number in \<open>0..65535\<close>.  String literals
  of the source are ASCII; \<open>js\<close> embeds them.
\<close>

type_synonym jsstring = "16 word list"

definition js :: "string \<Rightarrow> jsstring" where
  "js s = map of_char s"

definition charCode :: "16 word \<Rightarrow> int" where
  "charCode c = uint c"

text \<open>
  ECMAScript \<open>ToInt32\<close>: reduce modulo \<open>2^32\<close> and read the result as a signed
  32-bit number.  The bitwise operators \<open><<\<close> and \<open>&\<close> apply it to their operands and
  to their result; \<open>-\<close> and \<open>+\<close> are exact on the (small) numbers that occur here.
\<close>

definition toInt32 :: "int \<Rightarrow> int" where
  "toInt32 x = (let m = x mod 2 ^ 32 in if m \<ge> 2 ^ 31 then m - 2 ^ 32 else m)"

definition shiftLeft5 :: "int \<Rightarrow> int" where
  "shiftLeft5 h = toInt32 (toInt32 h * 2 ^ 5)"

text \<open>
  The loop body of \<open>hashPassword\<close>:
  \<^verbatim>\<open>hash = (hash << 5) - hash + char; hash = hash & hash;\<close>
\<close>

definition hash_step :: "int \<Rightarrow> 16 word \<Rightarrow> int" where
  "hash_step h c = toInt32 (shiftLeft5 h - h + charCode c)"

fun hash_loop :: "int \<Rightarrow> jsstring \<Rightarrow> int" where
  "hash_loop h [] = h"
| "hash_loop h (c # cs) = hash_loop (hash_step h c) cs"

definition hash_acc :: "jsstring \<Rightarrow> int" where
  "hash_acc password = hash_loop 0 password"

text \<open>
  \<open>Number.prototype.toString(radix)\<close> on a non-negative integer: the digits
  \<open>0-9a-z\<close>, most significant first, no leading zero.  \<open>toString()\<close> on an
  integer is the decimal form with a leading \<open>-\<close> for a negative number.
\<close>

definition digit_unit :: "nat \<Rightarrow> 16 word" where
  "digit_unit d = (if d < 10 then of_nat (48 + d) else of_nat (87 + d))"

function digits_radix :: "nat \<Rightarrow> nat \<Rightarrow> jsstring" where
  "digits_radix b n =
     (if b < 2 \<or> n < b then [digit_unit n]
      else digits_radix b (n div b) @ [digit_unit (n mod b)])"
  by pat_completeness auto
termination
  by (relation "measure (\<lambda>(b, n). n)") auto

definition minus_sign :: "16 word" where
  "minus_sign = 45"

definition toString_radix16 :: "int \<Rightarrow> jsstring" where
  "toString_radix16 x = digits_radix 16 (nat x)"

definition toString_decimal :: "int \<Rightarrow> jsstring" where
  "toString_decimal x =
     (if x < 0 then minus_sign # digits_radix 10 (nat (- x)) else digits_radix 10 (nat x))"

text \<open>
  \<open>hashPassword\<close> of \<open>server.js\<close>, \<open>api/index.ts\<close> and the login and
  reset-with-verification serverless handlers:
  \<^verbatim>\<open>return Math.abs(hash).toString(16);\<close>
\<close>

definition hashPassword :: "jsstring \<Rightarrow> jsstring" where
  "hashPassword password = toString_radix16 \<bar>hash_acc password\<bar>"

text \<open>
  \<open>hashPassword\<close> of \<open>api/auth/reset-password.js\<close>:
  \<^verbatim>\<open>return hash.toString();\<close>
\<close>

definition hashPassword_decimal :: "jsstring \<Rightarrow> jsstring" where
  "hashPassword_decimal password = toString_decimal (hash_acc password)"

declare digits_radix.simps [simp del]

section \<open>Requests, responses and the remote table\<close>

text \<open>
  A request body is a JSON object whose fields, where present, are strings: a map
  from field names to strings.  Destructuring \<open>const { email } = req.body\<close> reads a
  field; an absent one is \<open>undefined\<close> (here \<open>None\<close>).  \<open>!v\<close> is true of \<open>undefined\<close>
  and of the empty string.
\<close>

type_synonym body = "string \<rightharpoonup> jsstring"

datatype http_method = GET | POST | PUT | DELETE | OPTIONS

record request =
  req_method :: http_method
  req_body :: body

definition falsy :: "jsstring option \<Rightarrow> bool" where
  "falsy v = (v = None \<or> v = Some [])"

text \<open>The string a field holds; the handlers read it only after the test \<open>!v\<close>.\<close>

definition str_of :: "jsstring option \<Rightarrow> jsstring" where
  "str_of v = (case v of None \<Rightarrow> [] | Some s \<Rightarrow> s)"

datatype payload =
    Error string
  | Message string
  | MessageUserId string jsstring
  | MessageUser string jsstring jsstring jsstring
  | NoBody

record response =
  status :: nat
  payload :: payload

definition respond :: "nat \<Rightarrow> payload \<Rightarrow> response" where
  "respond code p = \<lparr>status = code, payload = p\<rparr>"

text \<open>
  The HubDB table is an external service.  It keeps a draft and a published version
  of the rows; a row is \<open>{id, values: {email, password, name}}\<close>.  What the handlers rely
  on: a GET of the rows with an \<open>email\<close> parameter answers the rows whose email
  column equals it, in table order (without the parameter, all rows); a PATCH of
  \<open>rows/<id>\<close> replaces the password column of the row with that id and is refused
  when there is no such row; any call may fail, and then \<open>axios\<close> throws.  Which calls
  fail during a request is the \<open>network\<close> argument.  The \<open>world\<close> carries the two
  versions of the table, the calls made on the service so far, and the console.
\<close>

datatype table_version = Draft | Published

datatype call =
    GetRows table_version "jsstring option"
  | PatchRow table_version jsstring jsstring

record hubdb_row =
  row_id :: jsstring
  v_email :: jsstring
  v_password :: jsstring
  v_name :: jsstring

record user =
  user_id :: jsstring
  user_email :: jsstring
  user_password :: jsstring
  user_name :: jsstring

record network =
  get_draft_fails :: bool
  get_published_fails :: bool
  patch_fails :: bool

record world =
  draft :: "hubdb_row list"
  published :: "hubdb_row list"
  calls :: "call list"
  console :: "string list"

datatype 'a attempt = Throws | Returns 'a

definition console_log :: "string \<Rightarrow> world \<Rightarrow> world" where
  "console_log msg w = w\<lparr>console := console w @ [msg]\<rparr>"

definition rows_of :: "table_version \<Rightarrow> world \<Rightarrow> hubdb_row list" where
  "rows_of v w = (case v of Draft \<Rightarrow> draft w | Published \<Rightarrow> published w)"

definition get_fails :: "network \<Rightarrow> table_version \<Rightarrow> bool" where
  "get_fails net v = (case v of Draft \<Rightarrow> get_draft_fails net | Published \<Rightarrow> get_published_fails net)"

definition axios_get :: "network \<Rightarrow> table_version \<Rightarrow> jsstring option \<Rightarrow> world
    \<Rightarrow> hubdb_row list attempt \<times> world" where
  "axios_get net v param w =
     (let w' = w\<lparr>calls := calls w @ [GetRows v param]\<rparr> in
      if get_fails net v then (Throws, w')
      else (Returns (case param of
                       None \<Rightarrow> rows_of v w
                     | Some e \<Rightarrow> filter (\<lambda>r. v_email r = e) (rows_of v w)), w'))"

definition set_password :: "jsstring \<Rightarrow> jsstring \<Rightarrow> hubdb_row list \<Rightarrow> hubdb_row list" where
  "set_password rid pw rows = map (\<lambda>r. if row_id r = rid then r\<lparr>v_password := pw\<rparr> else r) rows"

definition has_row :: "jsstring \<Rightarrow> hubdb_row list \<Rightarrow> bool" where
  "has_row rid rows = list_ex (\<lambda>r. row_id r = rid) rows"

text \<open>\<open>axios.patch\<close>: \<open>True\<close> when the call resolves, \<open>False\<close> when it throws.\<close>

definition axios_patch :: "network \<Rightarrow> table_version \<Rightarrow> jsstring \<Rightarrow> jsstring \<Rightarrow> world
    \<Rightarrow> bool \<times> world" where
  "axios_patch net v rid pw w =
     (let w' = w\<lparr>calls := calls w @ [PatchRow v rid pw]\<rparr> in
      if patch_fails net \<or> \<not> has_row rid (rows_of v w) then (False, w')
      else (True, case v of
                    Draft \<Rightarrow> w'\<lparr>draft := set_password rid pw (draft w)\<rparr>
                  | Published \<Rightarrow> w'\<lparr>published := set_password rid pw (published w)\<rparr>))"

definition row_user :: "hubdb_row \<Rightarrow> user" where
  "row_user row = \<lparr>user_id = row_id row, user_email = v_email row,
                   user_password = v_password row, user_name = v_name row\<rparr>"

section \<open>The store adapter functions of the handlers\<close>

text \<open>
  \<open>getUserByEmail\<close> of the login handler and of the reset handler that verifies the
  old password: the draft rows first, then the published rows; the first result is
  the user; any failure is caught, logged and answered with \<open>null\<close>.
\<close>

definition getUserByEmail_draft :: "network \<Rightarrow> jsstring \<Rightarrow> world \<Rightarrow> user option \<times> world" where
  "getUserByEmail_draft net email w =
     (case axios_get net Draft (Some email) w of
        (Throws, w1) \<Rightarrow> (None, console_log ''Error fetching user:'' w1)
      | (Returns results, w1) \<Rightarrow>
          (case results of
             row # _ \<Rightarrow> (Some (row_user row), w1)
           | [] \<Rightarrow>
               (case axios_get net Published (Some email) w1 of
                  (Throws, w2) \<Rightarrow> (None, console_log ''Error fetching user:'' w2)
                | (Returns results2, w2) \<Rightarrow>
                    (case results2 of
                       row # _ \<Rightarrow> (Some (row_user row), w2)
                     | [] \<Rightarrow> (None, w2)))))"

text \<open>\<open>getUserByEmail\<close> of \<open>api/auth/reset-password.js\<close>: the published rows only.\<close>

definition getUserByEmail_published :: "network \<Rightarrow> jsstring \<Rightarrow> world \<Rightarrow> user option \<times> world" where
  "getUserByEmail_published net email w =
     (case axios_get net Published (Some email) w of
        (Throws, w1) \<Rightarrow> (None, console_log ''Error fetching user:'' w1)
      | (Returns results, w1) \<Rightarrow>
          (case results of
             row # _ \<Rightarrow> (Some (row_user row), w1)
           | [] \<Rightarrow> (None, w1)))"

text \<open>
  \<open>getUserByEmail\<close> of \<open>api/index.ts\<close>: all published rows are fetched and searched
  with \<open>rows.find\<close>; a failure is logged and thrown again.  \<open>rowEmail\<close> is the
  \<open>email\<close> value when it is truthy; the alternative column names the source falls
  back to are not columns of the rows modelled here, so the fallback is
  \<open>undefined\<close>.  \<open>x || ""\<close> on a string is the string.
\<close>

definition rowEmail :: "hubdb_row \<Rightarrow> jsstring option" where
  "rowEmail row = (if v_email row \<noteq> [] then Some (v_email row) else None)"

definition or_empty :: "jsstring \<Rightarrow> jsstring" where
  "or_empty s = (if s \<noteq> [] then s else [])"

definition getUserByEmail_index :: "network \<Rightarrow> jsstring \<Rightarrow> world \<Rightarrow> user option attempt \<times> world" where
  "getUserByEmail_index net email w =
     (case axios_get net Published None w of
        (Throws, w1) \<Rightarrow> (Throws, console_log ''Error getting user by email:'' w1)
      | (Returns rows, w1) \<Rightarrow>
          (case find (\<lambda>row. rowEmail row = Some email) rows of
             None \<Rightarrow> (Returns None, w1)
           | Some userRow \<Rightarrow>
               (Returns (Some \<lparr>user_id = row_id userRow,
                               user_email = or_empty (v_email userRow),
                               user_password = or_empty (v_password userRow),
                               user_name = or_empty (v_name userRow)\<rparr>), w1)))"

text \<open>
  \<open>updateUser\<close> of the reset handler that verifies the old password: a PATCH of the
  draft row, \<open>true\<close> on success, \<open>false\<close> when the call throws.
\<close>

definition updateUser_draft :: "network \<Rightarrow> jsstring \<Rightarrow> jsstring \<Rightarrow> world \<Rightarrow> bool \<times> world" where
  "updateUser_draft net userId pw w =
     (case axios_patch net Draft userId pw (console_log ''Updating user:'' w) of
        (True, w1) \<Rightarrow> (True, console_log ''Update successful:'' w1)
      | (False, w1) \<Rightarrow> (False, console_log ''Error updating user:'' w1))"

text \<open>\<open>updateUser\<close> of \<open>api/auth/reset-password.js\<close>: a PATCH of the published row.\<close>

definition updateUser_published :: "network \<Rightarrow> jsstring \<Rightarrow> jsstring \<Rightarrow> world \<Rightarrow> bool \<times> world" where
  "updateUser_published net userId pw w =
     (case axios_patch net Published userId pw w of
        (True, w1) \<Rightarrow> (True, w1)
      | (False, w1) \<Rightarrow> (False, console_log ''Error updating user:'' w1))"

text \<open>
  \<open>updateUser\<close> of \<open>api/index.ts\<close>: a PATCH of the published row; the result is
  \<open>response.status === 200\<close> (the service answers 200 when it accepts a PATCH); a
  failure is logged and thrown again.
\<close>

definition updateUser_index :: "network \<Rightarrow> jsstring \<Rightarrow> jsstring \<Rightarrow> world \<Rightarrow> bool attempt \<times> world" where
  "updateUser_index net userId pw w =
     (case axios_patch net Published userId pw w of
        (True, w1) \<Rightarrow> (Returns True, w1)
      | (False, w1) \<Rightarrow> (Throws, console_log ''Error updating user:'' w1))"

section \<open>The handlers\<close>

text \<open>
  The login handler (serverless): \<open>OPTIONS\<close> and other methods are answered first;
  then the two fields, the lookup, and the comparison of the stored password with
  the hash of the presented one and then with the presented one itself.  A match
  on the plain text is followed by a PATCH of the hash whose failure is caught.
\<close>

definition login_handler :: "network \<Rightarrow> request \<Rightarrow> world \<Rightarrow> response \<times> world" where
  "login_handler net req w =
     (if req_method req = OPTIONS then (respond 200 NoBody, w)
      else if req_method req \<noteq> POST then (respond 405 (Error ''Method not allowed''), w)
      else
        let email = req_body req ''email''; password = req_body req ''password'' in
        if falsy email \<or> falsy password
        then (respond 400 (Error ''Email and password are required''), w)
        else
          (case getUserByEmail_draft net (str_of email) w of
             (None, w1) \<Rightarrow> (respond 401 (Error ''Invalid email or password''), w1)
           | (Some user, w1) \<Rightarrow>
               let hashedPassword = hashPassword (str_of password);
                   ok = respond 200 (MessageUser ''Login successful''
                          (user_id user) (user_email user) (user_name user))
               in
               if user_password user \<noteq> hashedPassword then
                 if user_password user \<noteq> str_of password
                 then (respond 401 (Error ''Invalid email or password''), w1)
                 else
                   (case axios_patch net Draft (user_id user) hashedPassword
                           (console_log ''Converting plain text password to hash for user:'' w1) of
                      (True, w2) \<Rightarrow> (ok, console_log ''Password converted to hash successfully'' w2)
                    | (False, w2) \<Rightarrow> (ok, console_log ''Error converting password to hash:'' w2))
               else (ok, w1)))"

text \<open>
  The serverless reset handler that verifies the old password.  It checks that the
  three fields are present and nothing else about them.
\<close>

definition verified_reset_handler :: "network \<Rightarrow> request \<Rightarrow> world \<Rightarrow> response \<times> world" where
  "verified_reset_handler net req w =
     (if req_method req = OPTIONS then (respond 200 NoBody, w)
      else if req_method req \<noteq> POST then (respond 405 (Error ''Method not allowed''), w)
      else
        let email = req_body req ''email''; oldPassword = req_body req ''oldPassword'';
            newPassword = req_body req ''newPassword'' in
        if falsy email \<or> falsy oldPassword \<or> falsy newPassword
        then (respond 400 (Error ''Email, current Password, and new Password are required''), w)
        else
          (case getUserByEmail_draft net (str_of email) w of
             (None, w1) \<Rightarrow> (respond 404 (Error ''User not found''), w1)
           | (Some user, w1) \<Rightarrow>
               let hashedOldPassword = hashPassword (str_of oldPassword);
                   w2 = console_log ''Debug - Hashed provided password:''
                          (console_log ''Debug - Provided password:''
                            (console_log ''Debug - Stored password:'' w1));
                   update = (\<lambda>w3.
                     case updateUser_draft net (user_id user) (hashPassword (str_of newPassword)) w3 of
                       (False, w4) \<Rightarrow> (respond 500 (Error ''Failed to update password''), w4)
                     | (True, w4) \<Rightarrow>
                         (respond 200 (MessageUserId ''Password updated successfully'' (user_id user)), w4))
               in
               if user_password user \<noteq> hashedOldPassword then
                 if user_password user \<noteq> str_of oldPassword
                 then (respond 400 (Error ''Invalid current password''),
                       console_log ''Debug - Password mismatch: stored='' w2)
                 else update (console_log ''Current password was plain text, converting to hash format'' w2)
               else update w2))"

text \<open>
  The handler of \<open>api/auth/reset-password.js\<close>: it reads \<open>email\<close> and
  \<open>newPassword\<close> only, looks the user up and writes the decimal hash.
\<close>

definition reset_password_handler :: "network \<Rightarrow> request \<Rightarrow> world \<Rightarrow> response \<times> world" where
  "reset_password_handler net req w =
     (if req_method req = OPTIONS then (respond 200 NoBody, w)
      else if req_method req \<noteq> POST then (respond 405 (Error ''Method not allowed''), w)
      else
        let email = req_body req ''email''; newPassword = req_body req ''newPassword'' in
        if falsy email \<or> falsy newPassword
        then (respond 400 (Error ''Email and newPassword are required''), w)
        else
          (case getUserByEmail_published net (str_of email) w of
             (None, w1) \<Rightarrow> (respond 404 (Error ''User not found''), w1)
           | (Some user, w1) \<Rightarrow>
               let hashedPassword = hashPassword_decimal (str_of newPassword) in
               (case updateUser_published net (user_id user) hashedPassword w1 of
                  (False, w2) \<Rightarrow> (respond 500 (Error ''Failed to update password''), w2)
                | (True, w2) \<Rightarrow>
                    (respond 200 (MessageUserId ''Password updated successfully'' (user_id user)), w2))))"

text \<open>
  The Express application of \<open>api/index.ts\<close>.  Each route handler is one
  \<open>try\<close> block: whatever is thrown inside is logged and answered with 500.
  \<open>res.json\<close> without \<open>res.status\<close> answers 200.
\<close>

definition index_reset_password :: "network \<Rightarrow> body \<Rightarrow> world \<Rightarrow> response \<times> world" where
  "index_reset_password net b w =
     (let email = b ''email''; oldPassword = b ''oldPassword''; newPassword = b ''newPassword'';
          caught = (\<lambda>w'. (respond 500 (Error ''Internal server error''),
                            console_log ''Error in reset password:'' w'))
      in
      if falsy email \<or> falsy oldPassword \<or> falsy newPassword
      then (respond 400 (Error ''Email, old password, and new password are required''), w)
      else if length (str_of newPassword) < 8
      then (respond 400 (Error ''Password must be at least 8 characters long''), w)
      else
        (case getUserByEmail_index net (str_of email) w of
           (Throws, w1) \<Rightarrow> caught w1
         | (Returns None, w1) \<Rightarrow> (respond 400 (Error ''User not found''), w1)
         | (Returns (Some user), w1) \<Rightarrow>
             let hashedOldPassword = hashPassword (str_of oldPassword);
                 update = (\<lambda>w2.
                   case updateUser_index net (user_id user) (hashPassword (str_of newPassword)) w2 of
                     (Throws, w3) \<Rightarrow> caught w3
                   | (Returns _, w3) \<Rightarrow> (respond 200 (Message ''Password reset successfully''), w3))
             in
             if user_password user \<noteq> hashedOldPassword then
               if user_password user \<noteq> str_of oldPassword
               then (respond 400 (Error ''Invalid old password''), w1)
               else update (console_log ''Old password was plain text, converting to hash format'' w1)
             else update w1))"

definition index_change_password :: "network \<Rightarrow> body \<Rightarrow> world \<Rightarrow> response \<times> world" where
  "index_change_password net b w =
     (let email = b ''email''; currentPassword = b ''currentPassword''; newPassword = b ''newPassword'';
          caught = (\<lambda>w'. (respond 500 (Error ''Internal server error''),
                            console_log ''Error in change password:'' w'))
      in
      if falsy email \<or> falsy currentPassword \<or> falsy newPassword
      then (respond 400 (Error ''Email, current password, and new password are required''), w)
      else if length (str_of newPassword) < 8
      then (respond 400 (Error ''Password must be at least 8 characters long''), w)
      else
        (case getUserByEmail_index net (str_of email) w of
           (Throws, w1) \<Rightarrow> caught w1
         | (Returns None, w1) \<Rightarrow> (respond 400 (Error ''User not found''), w1)
         | (Returns (Some user), w1) \<Rightarrow>
             let hashedCurrentPassword = hashPassword (str_of currentPassword);
                 update = (\<lambda>w2.
                   case updateUser_index net (user_id user) (hashPassword (str_of newPassword)) w2 of
                     (Throws, w3) \<Rightarrow> caught w3
                   | (Returns _, w3) \<Rightarrow> (respond 200 (Message ''Password changed successfully''), w3))
             in
             if user_password user \<noteq> hashedCurrentPassword then
               if user_password user \<noteq> str_of currentPassword
               then (respond 400 (Error ''Invalid current password''), w1)
               else update (console_log ''Current password was plain text, converting to hash format'' w1)
             else update w1))"

text \<open>
  The Express application of \<open>server.js\<close>: the same two routes, with a simulated
  user in place of the table.  The file makes no HTTP call of its own.
\<close>

definition server_reset_password :: "body \<Rightarrow> world \<Rightarrow> response \<times> world" where
  "server_reset_password b w =
     (let email = b ''email''; oldPassword = b ''oldPassword''; newPassword = b ''newPassword'' in
      if falsy email \<or> falsy oldPassword \<or> falsy newPassword
      then (respond 400 (Error ''Email, old password, and new password are required''), w)
      else if length (str_of newPassword) < 8
      then (respond 400 (Error ''Password must be at least 8 characters long''), w)
      else if str_of email = js ''test@example.com'' \<and> str_of oldPassword = js ''oldpassword123''
      then (respond 200 (Message ''Password reset successfully''), console_log ''Password updated for'' w)
      else (respond 400 (Error ''Invalid email or old password''), w))"

definition server_change_password :: "body \<Rightarrow> world \<Rightarrow> response \<times> world" where
  "server_change_password b w =
     (let email = b ''email''; currentPassword = b ''currentPassword''; newPassword = b ''newPassword'' in
      if falsy email \<or> falsy currentPassword \<or> falsy newPassword
      then (respond 400 (Error ''Email, current password, and new password are required''), w)
      else if length (str_of newPassword) < 8
      then (respond 400 (Error ''Password must be at least 8 characters long''), w)
      else if str_of email = js ''test@example.com'' \<and> str_of currentPassword = js ''oldpassword123''
      then (respond 200 (Message ''Password changed successfully''), console_log ''Password changed for'' w)
      else (respond 400 (Error ''Invalid email or current password''), w))"

section \<open>The verifier of the specification\<close>

text \<open>
  The handlers have no verifier function of their own: each one repeats the two
  comparisons.  \<open>verify\<close> is the verifier as section 4.2 of the specification words
  it, with the hexadecimal \<open>hashPassword\<close> as the digest; the theorems below
  compare the handlers with it.
\<close>

datatype verification = Rejected | AcceptedHashed | AcceptedPlaintextNeedsUpgrade

definition verify :: "jsstring \<Rightarrow> jsstring \<Rightarrow> verification" where
  "verify storedValue presented =
     (let d = hashPassword presented in
      if storedValue = d then AcceptedHashed
      else if storedValue = presented then AcceptedPlaintextNeedsUpgrade
      else Rejected)"

section \<open>Observations and request shapes used in the statements\<close>

text \<open>The calls of a world that write: the PATCH calls.\<close>

fun is_patch :: "call \<Rightarrow> bool" where
  "is_patch (PatchRow _ _ _) = True"
| "is_patch (GetRows _ _) = False"

definition patch_calls :: "world \<Rightarrow> call list" where
  "patch_calls w = filter is_patch (calls w)"

text \<open>
  The password column of the row with a given id, as a later request reads it.
\<close>

definition stored_password :: "jsstring \<Rightarrow> hubdb_row list \<Rightarrow> jsstring option" where
  "stored_password rid rows = map_option v_password (find (\<lambda>r. row_id r = rid) rows)"

text \<open>The code units \<open>0-9\<close>, and \<open>0-9a-f\<close>.\<close>

definition is_decimal_unit :: "16 word \<Rightarrow> bool" where
  "is_decimal_unit c = (48 \<le> unat c \<and> unat c \<le> 57)"

definition is_hex_unit :: "16 word \<Rightarrow> bool" where
  "is_hex_unit c = (is_decimal_unit c \<or> (97 \<le> unat c \<and> unat c \<le> 102))"

text \<open>
  Requests that pass the field checks of a handler, with the strings they carry:
  a login request, a request to the serverless reset handler (three non-empty
  fields), and the bodies the two Express routes accept (three non-empty fields and
  a new password of at least 8 code units).
\<close>

definition login_request :: "request \<Rightarrow> jsstring \<Rightarrow> jsstring \<Rightarrow> bool" where
  "login_request req e p =
     (req_method req = POST \<and> req_body req ''email'' = Some e \<and> e \<noteq> []
      \<and> req_body req ''password'' = Some p \<and> p \<noteq> [])"

definition reset_request :: "request \<Rightarrow> jsstring \<Rightarrow> jsstring \<Rightarrow> jsstring \<Rightarrow> bool" where
  "reset_request req e p n =
     (req_method req = POST \<and> req_body req ''email'' = Some e \<and> e \<noteq> []
      \<and> req_body req ''oldPassword'' = Some p \<and> p \<noteq> []
      \<and> req_body req ''newPassword'' = Some n \<and> n \<noteq> [])"

definition reset_body :: "body \<Rightarrow> jsstring \<Rightarrow> jsstring \<Rightarrow> jsstring \<Rightarrow> bool" where
  "reset_body b e p n =
     (b ''email'' = Some e \<and> e \<noteq> [] \<and> b ''oldPassword'' = Some p \<and> p \<noteq> []
      \<and> b ''newPassword'' = Some n \<and> 8 \<le> length n)"

definition change_body :: "body \<Rightarrow> jsstring \<Rightarrow> jsstring \<Rightarrow> jsstring \<Rightarrow> bool" where
  "change_body b e p n =
     (b ''email'' = Some e \<and> e \<noteq> [] \<and> b ''currentPassword'' = Some p \<and> p \<noteq> []
      \<and> b ''newPassword'' = Some n \<and> 8 \<le> length n)"

text \<open>
  A request that passes the field check of \<open>api/auth/reset-password.js\<close>: an email
  and a new password, both non-empty.
\<close>

definition simple_reset_request :: "request \<Rightarrow> jsstring \<Rightarrow> jsstring \<Rightarrow> bool" where
  "simple_reset_request req e n =
     (req_method req = POST \<and> req_body req ''email'' = Some e \<and> e \<noteq> []
      \<and> req_body req ''newPassword'' = Some n \<and> n \<noteq> [])"

section \<open>Example data\<close>

text \<open>
  A table with one user whose password is still stored as plain text, a network
  on which every call succeeds, and requests of that user.
\<close>

definition example_row :: hubdb_row where
  "example_row = \<lparr>row_id = js ''1'', v_email = js ''test@example.com'',
                   v_password = js ''oldpassword123'', v_name = js ''Test''\<rparr>"

definition example_user :: user where
  "example_user = \<lparr>user_id = js ''1'', user_email = js ''test@example.com'',
                    user_password = js ''oldpassword123'', user_name = js ''Test''\<rparr>"

definition example_world :: world where
  "example_world = \<lparr>draft = [example_row], published = [example_row], calls = [], console = []\<rparr>"

definition network_up :: network where
  "network_up = \<lparr>get_draft_fails = False, get_published_fails = False, patch_fails = False\<rparr>"

definition example_login :: request where
  "example_login = \<lparr>req_method = POST,
     req_body = [''email'' \<mapsto> js ''test@example.com'', ''password'' \<mapsto> js ''oldpassword123'']\<rparr>"

definition example_reset_body :: body where
  "example_reset_body = [''email'' \<mapsto> js ''test@example.com'',
     ''oldPassword'' \<mapsto> js ''oldpassword123'', ''newPassword'' \<mapsto> js ''newpassword123'']"

definition example_change_body :: body where
  "example_change_body = [''email'' \<mapsto> js ''test@example.com'',
     ''currentPassword'' \<mapsto> js ''oldpassword123'', ''newPassword'' \<mapsto> js ''newpassword123'']"

definition example_reset :: request where
  "example_reset = \<lparr>req_method = POST, req_body = example_reset_body\<rparr>"

text \<open>The same requests with a wrong old password.\<close>

definition example_wrong_body :: body where
  "example_wrong_body = [''email'' \<mapsto> js ''test@example.com'',
     ''oldPassword'' \<mapsto> js ''wrong'', ''newPassword'' \<mapsto> js ''newpassword123'']"

definition example_wrong_change_body :: body where
  "example_wrong_change_body = [''email'' \<mapsto> js ''test@example.com'',
     ''currentPassword'' \<mapsto> js ''wrong'', ''newPassword'' \<mapsto> js ''newpassword123'']"

definition example_wrong_reset :: request where
  "example_wrong_reset = \<lparr>req_method = POST, req_body = example_wrong_body\<rparr>"

text \<open>The table after the user's password has been replaced by its hash.\<close>

definition example_hashed_row :: hubdb_row where
  "example_hashed_row = \<lparr>row_id = js ''1'', v_email = js ''test@example.com'',
                          v_password = js ''1c7f02d0'', v_name = js ''Test''\<rparr>"

definition example_hashed_user :: user where
  "example_hashed_user = \<lparr>user_id = js ''1'', user_email = js ''test@example.com'',
                           user_password = js ''1c7f02d0'', user_name = js ''Test''\<rparr>"

definition example_hashed_world :: world where
  "example_hashed_world =
     \<lparr>draft = [example_hashed_row], published = [example_hashed_row], calls = [], console = []\<rparr>"

text \<open>Requests with a new password of seven code units, and one without the old password.\<close>

definition example_short_body :: body where
  "example_short_body = [''email'' \<mapsto> js ''test@example.com'',
     ''oldPassword'' \<mapsto> js ''oldpassword123'', ''newPassword'' \<mapsto> js ''short12'']"

definition example_short_change_body :: body where
  "example_short_change_body = [''email'' \<mapsto> js ''test@example.com'',
     ''currentPassword'' \<mapsto> js ''oldpassword123'', ''newPassword'' \<mapsto> js ''short12'']"

definition example_short_reset :: request where
  "example_short_reset = \<lparr>req_method = POST, req_body = example_short_body\<rparr>"

definition example_missing_reset :: request where
  "example_missing_reset = \<lparr>req_method = POST,
     req_body = [''email'' \<mapsto> js ''test@example.com'', ''newPassword'' \<mapsto> js ''newpassword123'']\<rparr>"

text \<open>Requests for an email address the table does not hold.\<close>

definition example_unknown_body :: body where
  "example_unknown_body = [''email'' \<mapsto> js ''nobody@example.com'',
     ''oldPassword'' \<mapsto> js ''oldpassword123'', ''newPassword'' \<mapsto> js ''newpassword123'']"

definition example_unknown_change_body :: body where
  "example_unknown_change_body = [''email'' \<mapsto> js ''nobody@example.com'',
     ''currentPassword'' \<mapsto> js ''oldpassword123'', ''newPassword'' \<mapsto> js ''newpassword123'']"

definition example_unknown_reset :: request where
  "example_unknown_reset = \<lparr>req_method = POST, req_body = example_unknown_body\<rparr>"

text \<open>A network on which every GET fails, and one on which every PATCH fails.\<close>

definition network_get_fails :: network where
  "network_get_fails = \<lparr>get_draft_fails = True, get_published_fails = True, patch_fails = False\<rparr>"

definition network_patch_fails :: network where
  "network_patch_fails = \<lparr>get_draft_fails = False, get_published_fails = False, patch_fails = True\<rparr>"

text \<open>A request with an email and a new password of one code unit, and nothing else.\<close>

definition example_simple_reset :: request where
  "example_simple_reset = \<lparr>req_method = POST,
     req_body = [''email'' \<mapsto> js ''test@example.com'', ''newPassword'' \<mapsto> js ''x'']\<rparr>"

section \<open>The checksum: range, wrap-around and rendering\<close>

lemma toInt32_range: "- (2 ^ 31) \<le> toInt32 x \<and> toInt32 x < 2 ^ 31"
proof -
  have "0 \<le> x mod 4294967296" "x mod 4294967296 < 4294967296" by simp_all
  then show ?thesis by (auto simp add: toInt32_def Let_def)
qed

lemma toInt32_mod: "toInt32 x mod 4294967296 = x mod 4294967296"
  by (simp add: toInt32_def Let_def)

lemma toInt32_cong: "x mod 4294967296 = y mod 4294967296 \<Longrightarrow> toInt32 x = toInt32 y"
  by (simp add: toInt32_def)

lemma shiftLeft5_mod: "shiftLeft5 h mod 4294967296 = (32 * h) mod 4294967296"
proof -
  have "shiftLeft5 h mod 4294967296 = (toInt32 h * 32) mod 4294967296"
    by (simp add: shiftLeft5_def toInt32_mod)
  also have "\<dots> = (h * 32) mod 4294967296"
    by (rule mod_mult_cong [OF toInt32_mod refl])
  finally show ?thesis by (simp add: mult.commute)
qed

text \<open>One round of the loop is \<open>31 * hash + char\<close>, wrapped into 32 signed bits.\<close>

lemma hash_step_poly: "hash_step h c = toInt32 (31 * h + charCode c)"
proof -
  have "(shiftLeft5 h - h) mod 4294967296 = (32 * h - h) mod 4294967296"
    by (rule mod_diff_cong [OF shiftLeft5_mod refl])
  then have "(shiftLeft5 h - h + charCode c) mod 4294967296
      = (32 * h - h + charCode c) mod 4294967296"
    by (rule mod_add_cong [OF _ refl])
  then have "(shiftLeft5 h - h + charCode c) mod 4294967296
      = (31 * h + charCode c) mod 4294967296"
    by simp
  then show ?thesis unfolding hash_step_def by (rule toInt32_cong)
qed

lemma hash_loop_range:
  "- (2 ^ 31) \<le> h \<Longrightarrow> h < 2 ^ 31 \<Longrightarrow> - (2 ^ 31) \<le> hash_loop h s \<and> hash_loop h s < 2 ^ 31"
proof (induction s arbitrary: h)
  case Nil
  then show ?case by simp
next
  case (Cons c cs)
  have "- (2 ^ 31) \<le> hash_step h c \<and> hash_step h c < 2 ^ 31"
    unfolding hash_step_def by (rule toInt32_range)
  then show ?case using Cons.IH [of "hash_step h c"] by simp
qed

lemma hash_acc_range: "- (2 ^ 31) \<le> hash_acc s \<and> hash_acc s < 2 ^ 31"
  unfolding hash_acc_def by (rule hash_loop_range) simp_all

lemma unat_digit_unit:
  assumes "d < 16"
  shows "unat (digit_unit d) = (if d < 10 then 48 + d else 87 + d)"
proof -
  have "unat (of_nat (48 + d) :: 16 word) = (48 + d) mod 2 ^ 16"
    by (simp only: unat_of_nat) simp
  moreover have "unat (of_nat (87 + d) :: 16 word) = (87 + d) mod 2 ^ 16"
    by (simp only: unat_of_nat) simp
  ultimately show ?thesis using assms by (simp only: digit_unit_def) simp
qed

lemma digit_unit_hex: "d < 16 \<Longrightarrow> is_hex_unit (digit_unit d)"
  by (simp add: is_hex_unit_def is_decimal_unit_def unat_digit_unit)

lemma digit_unit_decimal: "d < 10 \<Longrightarrow> is_decimal_unit (digit_unit d)"
  by (simp add: is_decimal_unit_def unat_digit_unit)

lemma digits_radix16_hex: "list_all is_hex_unit (digits_radix 16 n)"
proof (induction "16::nat" n rule: digits_radix.induct)
  case (1 n)
  show ?case
  proof (cases "n < 16")
    case True
    then show ?thesis
      using digit_unit_hex [of n] by (simp add: digits_radix.simps [of 16 n])
  next
    case False
    have "n mod 16 < 16" by simp
    then have "is_hex_unit (digit_unit (n mod 16))" by (rule digit_unit_hex)
    moreover have "list_all is_hex_unit (digits_radix 16 (n div 16))"
      using 1 False by simp
    ultimately show ?thesis
      using False by (simp add: digits_radix.simps [of 16 n])
  qed
qed

lemma digits_radix10_decimal: "list_all is_decimal_unit (digits_radix 10 n)"
proof (induction "10::nat" n rule: digits_radix.induct)
  case (1 n)
  show ?case
  proof (cases "n < 10")
    case True
    then show ?thesis
      using digit_unit_decimal [of n] by (simp add: digits_radix.simps [of 10 n])
  next
    case False
    have "n mod 10 < 10" by simp
    then have "is_decimal_unit (digit_unit (n mod 10))" by (rule digit_unit_decimal)
    moreover have "list_all is_decimal_unit (digits_radix 10 (n div 10))"
      using 1 False by simp
    ultimately show ?thesis
      using False by (simp add: digits_radix.simps [of 10 n])
  qed
qed

lemma minus_not_hex: "\<not> is_hex_unit minus_sign"
  by (simp add: minus_sign_def is_hex_unit_def is_decimal_unit_def)

lemma minus_not_decimal: "\<not> is_decimal_unit minus_sign"
  by (simp add: minus_sign_def is_decimal_unit_def)

lemma list_all_not_member: "list_all P xs \<Longrightarrow> \<not> P x \<Longrightarrow> x \<notin> set xs"
  by (auto simp add: list_all_iff)

text \<open>
  Claim C6, as the code has it.  The accumulator of \<open>hashPassword\<close> is a signed
  32-bit number, each round being \<open>31 * hash + char\<close> wrapped around.  The four
  hexadecimal copies of \<open>hashPassword\<close> render its absolute value with the digits
  \<open>0-9a-f\<close>, so their result has no minus sign.  The decimal copy of
  \<open>api/auth/reset-password.js\<close> renders the accumulator itself: its result starts
  with a minus sign exactly when the accumulator is negative.
\<close>

theorem hashPassword_rendering:
  "- (2 ^ 31) \<le> hash_acc s \<and> hash_acc s < 2 ^ 31
   \<and> hash_loop h (c # cs) = hash_loop (toInt32 (31 * h + charCode c)) cs
   \<and> hashPassword s = digits_radix 16 (nat \<bar>hash_acc s\<bar>)
   \<and> list_all is_hex_unit (hashPassword s)
   \<and> minus_sign \<notin> set (hashPassword s)
   \<and> hashPassword_decimal s =
        (if hash_acc s < 0 then minus_sign # digits_radix 10 (nat \<bar>hash_acc s\<bar>)
         else digits_radix 10 (nat \<bar>hash_acc s\<bar>))
   \<and> (minus_sign \<in> set (hashPassword_decimal s)) = (hash_acc s < 0)"
proof -
  have hex: "list_all is_hex_unit (hashPassword s)"
    by (simp add: hashPassword_def toString_radix16_def digits_radix16_hex)
  have no_minus: "minus_sign \<notin> set (hashPassword s)"
    using hex minus_not_hex by (rule list_all_not_member)
  have dec: "minus_sign \<notin> set (digits_radix 10 n)" for n
    using digits_radix10_decimal minus_not_decimal by (rule list_all_not_member)
  have render: "hashPassword_decimal s =
        (if hash_acc s < 0 then minus_sign # digits_radix 10 (nat \<bar>hash_acc s\<bar>)
         else digits_radix 10 (nat \<bar>hash_acc s\<bar>))"
    by (simp add: hashPassword_decimal_def toString_decimal_def)
  have sign: "(minus_sign \<in> set (hashPassword_decimal s)) = (hash_acc s < 0)"
    by (simp add: render dec)
  have step: "hash_loop h (c # cs) = hash_loop (toInt32 (31 * h + charCode c)) cs"
    by (simp add: hash_step_poly)
  have abs: "hashPassword s = digits_radix 16 (nat \<bar>hash_acc s\<bar>)"
    by (simp add: hashPassword_def toString_radix16_def)
  show ?thesis
    using hash_acc_range [of s] step abs hex no_minus render sign by blast
qed

text \<open>
  Claim C6 as stated fails at the decimal call site: the reset handler of
  \<open>api/auth/reset-password.js\<close> stores \<open>-478085840\<close> for the password
  \<open>oldpassword123\<close>, minus sign included, where the hexadecimal copies give
  \<open>1c7f02d0\<close>.
\<close>

theorem hashPassword_decimal_minus_sign:
  "hashPassword_decimal (js ''oldpassword123'') = js ''-478085840''
   \<and> minus_sign \<in> set (hashPassword_decimal (js ''oldpassword123''))
   \<and> hashPassword (js ''oldpassword123'') = js ''1c7f02d0''"
  by (simp add: hashPassword_decimal_def hashPassword_def hash_acc_def js_def hash_step_def
      shiftLeft5_def toInt32_def charCode_def toString_decimal_def toString_radix16_def
      digits_radix.simps digit_unit_def minus_sign_def)

section \<open>Comparing embedded literals\<close>

lemma unat_of_char16: "unat (of_char c :: 16 word) = of_char c"
proof -
  have "unat (of_nat (of_char c) :: 16 word) = of_char c mod 2 ^ 16"
    by (simp only: unat_of_nat) simp
  moreover have "(of_char c :: nat) < 2 ^ 16"
  proof -
    have "(of_char c :: nat) < 256" by (rule nat_of_char_less_256)
    also have "(256 :: nat) < 2 ^ 16" by simp
    finally show ?thesis .
  qed
  ultimately show ?thesis by (simp add: of_nat_of_char)
qed

lemma inj_of_char16: "inj (of_char :: char \<Rightarrow> 16 word)"
proof (rule injI)
  fix c d :: char
  assume "(of_char c :: 16 word) = of_char d"
  then have "unat (of_char c :: 16 word) = unat (of_char d :: 16 word)" by simp
  then show "c = d" by (simp add: unat_of_char16)
qed

lemma js_eq_iff [simp]: "js a = js b \<longleftrightarrow> a = b"
  by (simp add: js_def inj_map_eq_map [OF inj_of_char16])

lemma js_Nil_iff [simp]: "js a = [] \<longleftrightarrow> a = []" "[] = js a \<longleftrightarrow> a = []"
  by (auto simp add: js_def)

lemma length_js [simp]: "length (js a) = length a"
  by (simp add: js_def)

section \<open>What the adapter functions leave alone\<close>

lemma console_log_frame [simp]:
  "draft (console_log m w) = draft w"
  "published (console_log m w) = published w"
  "calls (console_log m w) = calls w"
  "patch_calls (console_log m w) = patch_calls w"
  by (simp_all add: console_log_def patch_calls_def)

lemma rows_of_console_log [simp]: "rows_of v (console_log m w) = rows_of v w"
  by (simp add: rows_of_def split: table_version.splits)

lemma axios_get_frame:
  "axios_get net v param w = (res, w1) \<Longrightarrow>
     draft w1 = draft w \<and> published w1 = published w \<and> patch_calls w1 = patch_calls w
     \<and> console w1 = console w"
  by (auto simp add: axios_get_def Let_def patch_calls_def split: if_splits)

lemma getUserByEmail_draft_frame:
  assumes "getUserByEmail_draft net e w = (uo, w1)"
  shows "draft w1 = draft w \<and> published w1 = published w \<and> patch_calls w1 = patch_calls w"
  using assms
  by (auto simp add: getUserByEmail_draft_def split: prod.splits attempt.splits list.splits
      dest!: axios_get_frame)

lemma getUserByEmail_published_frame:
  assumes "getUserByEmail_published net e w = (uo, w1)"
  shows "draft w1 = draft w \<and> published w1 = published w \<and> patch_calls w1 = patch_calls w"
  using assms
  by (auto simp add: getUserByEmail_published_def split: prod.splits attempt.splits list.splits
      dest!: axios_get_frame)

lemma getUserByEmail_index_frame:
  assumes "getUserByEmail_index net e w = (uo, w1)"
  shows "draft w1 = draft w \<and> published w1 = published w \<and> patch_calls w1 = patch_calls w"
  using assms
  by (auto simp add: getUserByEmail_index_def split: prod.splits attempt.splits option.splits
      dest!: axios_get_frame)

lemma axios_patch_fails:
  "patch_fails net \<Longrightarrow>
     axios_patch net v rid pw w = (False, w\<lparr>calls := calls w @ [PatchRow v rid pw]\<rparr>)"
  by (simp add: axios_patch_def)

lemma axios_patch_frame_fail:
  "axios_patch net v rid pw w = (False, w1) \<Longrightarrow>
     draft w1 = draft w \<and> published w1 = published w \<and> console w1 = console w"
  by (auto simp add: axios_patch_def Let_def split: if_splits table_version.splits)

lemma stored_password_set_password:
  "has_row rid rows \<Longrightarrow> stored_password rid (set_password rid pw rows) = Some pw"
  by (induction rows) (auto simp add: has_row_def stored_password_def set_password_def)

lemma axios_patch_ok_draft:
  "axios_patch net Draft rid pw w = (True, w1) \<Longrightarrow> stored_password rid (draft w1) = Some pw"
  by (auto simp add: axios_patch_def Let_def rows_of_def stored_password_set_password
      split: if_splits)

lemma axios_patch_ok_published:
  "axios_patch net Published rid pw w = (True, w1) \<Longrightarrow>
     stored_password rid (published w1) = Some pw"
  by (auto simp add: axios_patch_def Let_def rows_of_def stored_password_set_password
      split: if_splits)

section \<open>The handlers once the user is found\<close>

lemma login_found:
  assumes "login_request req e p"
    and "getUserByEmail_draft net e w = (Some u, w1)"
  shows "login_handler net req w =
     (let ok = respond 200 (MessageUser ''Login successful'' (user_id u) (user_email u) (user_name u)) in
      if user_password u \<noteq> hashPassword p then
        if user_password u \<noteq> p then (respond 401 (Error ''Invalid email or password''), w1)
        else
          (case axios_patch net Draft (user_id u) (hashPassword p)
                  (console_log ''Converting plain text password to hash for user:'' w1) of
             (True, w2) \<Rightarrow> (ok, console_log ''Password converted to hash successfully'' w2)
           | (False, w2) \<Rightarrow> (ok, console_log ''Error converting password to hash:'' w2))
      else (ok, w1))"
  using assms
  by (simp add: login_request_def login_handler_def Let_def falsy_def str_of_def)

lemma verified_reset_found:
  assumes "reset_request req e p n"
    and "getUserByEmail_draft net e w = (Some u, w1)"
  shows "verified_reset_handler net req w =
     (let w2 = console_log ''Debug - Hashed provided password:''
                 (console_log ''Debug - Provided password:''
                   (console_log ''Debug - Stored password:'' w1));
          update = (\<lambda>w3.
            case updateUser_draft net (user_id u) (hashPassword n) w3 of
              (False, w4) \<Rightarrow> (respond 500 (Error ''Failed to update password''), w4)
            | (True, w4) \<Rightarrow>
                (respond 200 (MessageUserId ''Password updated successfully'' (user_id u)), w4))
      in
      if user_password u \<noteq> hashPassword p then
        if user_password u \<noteq> p
        then (respond 400 (Error ''Invalid current password''),
              console_log ''Debug - Password mismatch: stored='' w2)
        else update (console_log ''Current password was plain text, converting to hash format'' w2)
      else update w2)"
  using assms
  by (simp add: reset_request_def verified_reset_handler_def Let_def falsy_def str_of_def)

lemma index_reset_found:
  assumes "reset_body b e p n"
    and "getUserByEmail_index net e w = (Returns (Some u), w1)"
  shows "index_reset_password net b w =
     (let update = (\<lambda>w2.
            case updateUser_index net (user_id u) (hashPassword n) w2 of
              (Throws, w3) \<Rightarrow> (respond 500 (Error ''Internal server error''),
                                 console_log ''Error in reset password:'' w3)
            | (Returns _, w3) \<Rightarrow> (respond 200 (Message ''Password reset successfully''), w3))
      in
      if user_password u \<noteq> hashPassword p then
        if user_password u \<noteq> p then (respond 400 (Error ''Invalid old password''), w1)
        else update (console_log ''Old password was plain text, converting to hash format'' w1)
      else update w1)"
proof -
  from assms(1) have "n \<noteq> []" by (auto simp add: reset_body_def)
  with assms show ?thesis
    by (simp add: reset_body_def index_reset_password_def Let_def falsy_def str_of_def)
qed

lemma index_change_found:
  assumes "change_body b e p n"
    and "getUserByEmail_index net e w = (Returns (Some u), w1)"
  shows "index_change_password net b w =
     (let update = (\<lambda>w2.
            case updateUser_index net (user_id u) (hashPassword n) w2 of
              (Throws, w3) \<Rightarrow> (respond 500 (Error ''Internal server error''),
                                 console_log ''Error in change password:'' w3)
            | (Returns _, w3) \<Rightarrow> (respond 200 (Message ''Password changed successfully''), w3))
      in
      if user_password u \<noteq> hashPassword p then
        if user_password u \<noteq> p then (respond 400 (Error ''Invalid current password''), w1)
        else update (console_log ''Current password was plain text, converting to hash format'' w1)
      else update w1)"
proof -
  from assms(1) have "n \<noteq> []" by (auto simp add: change_body_def)
  with assms show ?thesis
    by (simp add: change_body_def index_change_password_def Let_def falsy_def str_of_def)
qed

section \<open>The example table and requests\<close>

lemma example_lookup_draft:
  "getUserByEmail_draft network_up (js ''test@example.com'') example_world =
     (Some example_user, example_world\<lparr>calls := [GetRows Draft (Some (js ''test@example.com''))]\<rparr>)"
  by (simp add: getUserByEmail_draft_def axios_get_def get_fails_def network_up_def rows_of_def
      example_world_def example_row_def example_user_def row_user_def Let_def)

lemma example_lookup_index:
  "getUserByEmail_index network_up (js ''test@example.com'') example_world =
     (Returns (Some example_user), example_world\<lparr>calls := [GetRows Published None]\<rparr>)"
  by (simp add: getUserByEmail_index_def axios_get_def get_fails_def network_up_def rows_of_def
      example_world_def example_row_def example_user_def rowEmail_def or_empty_def js_def Let_def)

lemma example_login_request:
  "login_request example_login (js ''test@example.com'') (js ''oldpassword123'')"
  by (simp add: login_request_def example_login_def js_def)

lemma example_reset_request:
  "reset_request example_reset (js ''test@example.com'') (js ''oldpassword123'') (js ''newpassword123'')"
  by (simp add: reset_request_def example_reset_def example_reset_body_def js_def)

lemma example_reset_body_ok:
  "reset_body example_reset_body (js ''test@example.com'') (js ''oldpassword123'') (js ''newpassword123'')"
  by (simp add: reset_body_def example_reset_body_def js_def)

lemma example_change_body_ok:
  "change_body example_change_body (js ''test@example.com'') (js ''oldpassword123'') (js ''newpassword123'')"
  by (simp add: change_body_def example_change_body_def js_def)

section \<open>The order of the two comparisons\<close>

text \<open>
  Claim C1.  Every handler that verifies a credential against the table (the login
  handler, the serverless reset handler that takes the old password, and the reset
  and change routes of \<open>api/index.ts\<close>) behaves, once the user is found, as the
  outcome of \<open>verify\<close> on the stored and the presented password says: the hash
  of the presented password is compared first, the presented password itself only
  when that fails, and the request is refused only when both fail.  A stored value
  that equals both is treated as a hash: no write-back on login, no plain-text
  notice on reset.  (The routes of \<open>server.js\<close> compare with a fixed password of
  a simulated user and \<open>api/auth/reset-password.js\<close> compares nothing: neither
  reads a stored credential.)
\<close>

theorem handlers_follow_verify:
  "(login_request req e p \<and> getUserByEmail_draft net e w = (Some u, wl) \<longrightarrow>
      login_handler net req w =
        (let ok = respond 200 (MessageUser ''Login successful'' (user_id u) (user_email u) (user_name u)) in
         case verify (user_password u) p of
           Rejected \<Rightarrow> (respond 401 (Error ''Invalid email or password''), wl)
         | AcceptedHashed \<Rightarrow> (ok, wl)
         | AcceptedPlaintextNeedsUpgrade \<Rightarrow>
             (case axios_patch net Draft (user_id u) (hashPassword p)
                     (console_log ''Converting plain text password to hash for user:'' wl) of
                (True, w2) \<Rightarrow> (ok, console_log ''Password converted to hash successfully'' w2)
              | (False, w2) \<Rightarrow> (ok, console_log ''Error converting password to hash:'' w2))))
   \<and> (reset_request req' e p n \<and> getUserByEmail_draft net e w = (Some u, wl) \<longrightarrow>
      verified_reset_handler net req' w =
        (let w2 = console_log ''Debug - Hashed provided password:''
                    (console_log ''Debug - Provided password:''
                      (console_log ''Debug - Stored password:'' wl));
             update = (\<lambda>w3.
               case updateUser_draft net (user_id u) (hashPassword n) w3 of
                 (False, w4) \<Rightarrow> (respond 500 (Error ''Failed to update password''), w4)
               | (True, w4) \<Rightarrow>
                   (respond 200 (MessageUserId ''Password updated successfully'' (user_id u)), w4))
         in
         case verify (user_password u) p of
           Rejected \<Rightarrow> (respond 400 (Error ''Invalid current password''),
                         console_log ''Debug - Password mismatch: stored='' w2)
         | AcceptedHashed \<Rightarrow> update w2
         | AcceptedPlaintextNeedsUpgrade \<Rightarrow>
             update (console_log ''Current password was plain text, converting to hash format'' w2)))
   \<and> (reset_body b e p n \<and> getUserByEmail_index net e w = (Returns (Some u'), wl') \<longrightarrow>
      index_reset_password net b w =
        (let update = (\<lambda>w2.
               case updateUser_index net (user_id u') (hashPassword n) w2 of
                 (Throws, w3) \<Rightarrow> (respond 500 (Error ''Internal server error''),
                                    console_log ''Error in reset password:'' w3)
               | (Returns _, w3) \<Rightarrow> (respond 200 (Message ''Password reset successfully''), w3))
         in
         case verify (user_password u') p of
           Rejected \<Rightarrow> (respond 400 (Error ''Invalid old password''), wl')
         | AcceptedHashed \<Rightarrow> update wl'
         | AcceptedPlaintextNeedsUpgrade \<Rightarrow>
             update (console_log ''Old password was plain text, converting to hash format'' wl')))
   \<and> (change_body b' e p n \<and> getUserByEmail_index net e w = (Returns (Some u'), wl') \<longrightarrow>
      index_change_password net b' w =
        (let update = (\<lambda>w2.
               case updateUser_index net (user_id u') (hashPassword n) w2 of
                 (Throws, w3) \<Rightarrow> (respond 500 (Error ''Internal server error''),
                                    console_log ''Error in change password:'' w3)
               | (Returns _, w3) \<Rightarrow> (respond 200 (Message ''Password changed successfully''), w3))
         in
         case verify (user_password u') p of
           Rejected \<Rightarrow> (respond 400 (Error ''Invalid current password''), wl')
         | AcceptedHashed \<Rightarrow> update wl'
         | AcceptedPlaintextNeedsUpgrade \<Rightarrow>
             update (console_log ''Current password was plain text, converting to hash format'' wl')))"
  by (intro conjI impI; elim conjE)
    (simp_all add: login_found verified_reset_found index_reset_found index_change_found
      verify_def Let_def)

text \<open>
  The example user logs in, and resets and changes the password, with the plain-text
  password the table holds.
\<close>

lemma example_hash_old: "hashPassword (js ''oldpassword123'') = js ''1c7f02d0''"
  by (simp add: hashPassword_def hash_acc_def js_def hash_step_def
      shiftLeft5_def toInt32_def charCode_def toString_radix16_def
      digits_radix.simps digit_unit_def)

lemma example_hash_new: "hashPassword (js ''newpassword123'') = js ''e3d4c17''"
  by (simp add: hashPassword_def hash_acc_def js_def hash_step_def
      shiftLeft5_def toInt32_def charCode_def toString_radix16_def
      digits_radix.simps digit_unit_def)

lemma example_verify:
  "verify (user_password example_user) (js ''oldpassword123'') = AcceptedPlaintextNeedsUpgrade"
  by (simp add: verify_def example_hash_old example_user_def Let_def)

theorem handlers_follow_verify_witness:
  "login_request example_login (js ''test@example.com'') (js ''oldpassword123'')
   \<and> reset_request example_reset (js ''test@example.com'') (js ''oldpassword123'') (js ''newpassword123'')
   \<and> reset_body example_reset_body (js ''test@example.com'') (js ''oldpassword123'') (js ''newpassword123'')
   \<and> change_body example_change_body (js ''test@example.com'') (js ''oldpassword123'') (js ''newpassword123'')
   \<and> fst (getUserByEmail_draft network_up (js ''test@example.com'') example_world) = Some example_user
   \<and> fst (getUserByEmail_index network_up (js ''test@example.com'') example_world) = Returns (Some example_user)
   \<and> verify (user_password example_user) (js ''oldpassword123'') = AcceptedPlaintextNeedsUpgrade
   \<and> status (fst (login_handler network_up example_login example_world)) = 200
   \<and> calls (snd (login_handler network_up example_login example_world)) =
        [GetRows Draft (Some (js ''test@example.com'')), PatchRow Draft (js ''1'') (js ''1c7f02d0'')]
   \<and> status (fst (verified_reset_handler network_up example_reset example_world)) = 200
   \<and> ''Current password was plain text, converting to hash format''
        \<in> set (console (snd (verified_reset_handler network_up example_reset example_world)))
   \<and> status (fst (index_reset_password network_up example_reset_body example_world)) = 200
   \<and> console (snd (index_reset_password network_up example_reset_body example_world)) =
        [''Old password was plain text, converting to hash format'']
   \<and> status (fst (index_change_password network_up example_change_body example_world)) = 200
   \<and> console (snd (index_change_password network_up example_change_body example_world)) =
        [''Current password was plain text, converting to hash format'']"
  using handlers_follow_verify [where req = example_login and e = "js ''test@example.com''"
      and p = "js ''oldpassword123''" and net = network_up and w = example_world
      and u = example_user and wl = "example_world\<lparr>calls := [GetRows Draft (Some (js ''test@example.com''))]\<rparr>"
      and req' = example_reset and n = "js ''newpassword123''" and b = example_reset_body
      and u' = example_user and wl' = "example_world\<lparr>calls := [GetRows Published None]\<rparr>"
      and b' = example_change_body]
    example_lookup_draft example_lookup_index example_login_request example_reset_request
    example_reset_body_ok example_change_body_ok example_verify
  by (simp add: Let_def example_hash_old example_hash_new axios_patch_def updateUser_draft_def
      updateUser_index_def respond_def network_up_def example_user_def example_world_def
      example_row_def rows_of_def has_row_def console_log_def)

section \<open>A wrong password\<close>

lemma example_hash_wrong: "hashPassword (js ''wrong'') = js ''6c26dad''"
  by (simp add: hashPassword_def hash_acc_def js_def hash_step_def
      shiftLeft5_def toInt32_def charCode_def toString_radix16_def
      digits_radix.simps digit_unit_def)

lemma example_wrong_reset_request:
  "reset_request example_wrong_reset (js ''test@example.com'') (js ''wrong'') (js ''newpassword123'')"
  by (simp add: reset_request_def example_wrong_reset_def example_wrong_body_def js_def)

lemma example_wrong_body_ok:
  "reset_body example_wrong_body (js ''test@example.com'') (js ''wrong'') (js ''newpassword123'')"
  by (simp add: reset_body_def example_wrong_body_def js_def)

lemma example_wrong_change_body_ok:
  "change_body example_wrong_change_body (js ''test@example.com'') (js ''wrong'') (js ''newpassword123'')"
  by (simp add: change_body_def example_wrong_change_body_def js_def)

lemma example_stored_not_wrong:
  "user_password example_user \<noteq> hashPassword (js ''wrong'')
   \<and> user_password example_user \<noteq> js ''wrong''"
  by (simp add: example_hash_wrong example_user_def)

text \<open>
  Claim C7.  When the stored value is neither the hash of the presented password
  nor the presented password, \<open>verify\<close> rejects, and the reset handler that takes
  the old password, like the reset and change routes of \<open>api/index.ts\<close>, answers
  400; both versions of the table are as before and no PATCH call has been made.
\<close>

theorem mismatch_is_rejected:
  "(x \<noteq> hashPassword p \<and> x \<noteq> p \<longrightarrow> verify x p = Rejected)
   \<and> (reset_request req e p n \<and> getUserByEmail_draft net e w = (Some u, wl)
        \<and> user_password u \<noteq> hashPassword p \<and> user_password u \<noteq> p \<longrightarrow>
        fst (verified_reset_handler net req w) = respond 400 (Error ''Invalid current password'')
        \<and> draft (snd (verified_reset_handler net req w)) = draft w
        \<and> published (snd (verified_reset_handler net req w)) = published w
        \<and> patch_calls (snd (verified_reset_handler net req w)) = patch_calls w)
   \<and> (reset_body b e p n \<and> getUserByEmail_index net e w = (Returns (Some u'), wl')
        \<and> user_password u' \<noteq> hashPassword p \<and> user_password u' \<noteq> p \<longrightarrow>
        fst (index_reset_password net b w) = respond 400 (Error ''Invalid old password'')
        \<and> draft (snd (index_reset_password net b w)) = draft w
        \<and> published (snd (index_reset_password net b w)) = published w
        \<and> patch_calls (snd (index_reset_password net b w)) = patch_calls w)
   \<and> (change_body b' e p n \<and> getUserByEmail_index net e w = (Returns (Some u'), wl')
        \<and> user_password u' \<noteq> hashPassword p \<and> user_password u' \<noteq> p \<longrightarrow>
        fst (index_change_password net b' w) = respond 400 (Error ''Invalid current password'')
        \<and> draft (snd (index_change_password net b' w)) = draft w
        \<and> published (snd (index_change_password net b' w)) = published w
        \<and> patch_calls (snd (index_change_password net b' w)) = patch_calls w)"
proof -
  have v: "x \<noteq> hashPassword p \<and> x \<noteq> p \<longrightarrow> verify x p = Rejected"
    by (simp add: verify_def)
  have r: "fst (verified_reset_handler net req w) = respond 400 (Error ''Invalid current password'')
        \<and> draft (snd (verified_reset_handler net req w)) = draft w
        \<and> published (snd (verified_reset_handler net req w)) = published w
        \<and> patch_calls (snd (verified_reset_handler net req w)) = patch_calls w"
    if "reset_request req e p n" and "getUserByEmail_draft net e w = (Some u, wl)"
      and "user_password u \<noteq> hashPassword p" and "user_password u \<noteq> p"
    using that getUserByEmail_draft_frame [OF that(2)]
    by (simp add: verified_reset_found [OF that(1) that(2)] Let_def)
  have i: "fst (index_reset_password net b w) = respond 400 (Error ''Invalid old password'')
        \<and> draft (snd (index_reset_password net b w)) = draft w
        \<and> published (snd (index_reset_password net b w)) = published w
        \<and> patch_calls (snd (index_reset_password net b w)) = patch_calls w"
    if "reset_body b e p n" and "getUserByEmail_index net e w = (Returns (Some u'), wl')"
      and "user_password u' \<noteq> hashPassword p" and "user_password u' \<noteq> p"
    using that getUserByEmail_index_frame [OF that(2)]
    by (simp add: index_reset_found [OF that(1) that(2)] Let_def)
  have c: "fst (index_change_password net b' w) = respond 400 (Error ''Invalid current password'')
        \<and> draft (snd (index_change_password net b' w)) = draft w
        \<and> published (snd (index_change_password net b' w)) = published w
        \<and> patch_calls (snd (index_change_password net b' w)) = patch_calls w"
    if "change_body b' e p n" and "getUserByEmail_index net e w = (Returns (Some u'), wl')"
      and "user_password u' \<noteq> hashPassword p" and "user_password u' \<noteq> p"
    using that getUserByEmail_index_frame [OF that(2)]
    by (simp add: index_change_found [OF that(1) that(2)] Let_def)
  from v r i c show ?thesis by blast
qed

theorem mismatch_is_rejected_witness:
  "user_password example_user \<noteq> hashPassword (js ''wrong'')
   \<and> user_password example_user \<noteq> js ''wrong''
   \<and> reset_request example_wrong_reset (js ''test@example.com'') (js ''wrong'') (js ''newpassword123'')
   \<and> reset_body example_wrong_body (js ''test@example.com'') (js ''wrong'') (js ''newpassword123'')
   \<and> change_body example_wrong_change_body (js ''test@example.com'') (js ''wrong'') (js ''newpassword123'')
   \<and> fst (getUserByEmail_draft network_up (js ''test@example.com'') example_world) = Some example_user
   \<and> fst (getUserByEmail_index network_up (js ''test@example.com'') example_world) = Returns (Some example_user)
   \<and> verify (user_password example_user) (js ''wrong'') = Rejected
   \<and> status (fst (verified_reset_handler network_up example_wrong_reset example_world)) = 400
   \<and> draft (snd (verified_reset_handler network_up example_wrong_reset example_world)) = [example_row]
   \<and> patch_calls (snd (verified_reset_handler network_up example_wrong_reset example_world)) = []
   \<and> status (fst (index_reset_password network_up example_wrong_body example_world)) = 400
   \<and> published (snd (index_reset_password network_up example_wrong_body example_world)) = [example_row]
   \<and> patch_calls (snd (index_reset_password network_up example_wrong_body example_world)) = []
   \<and> status (fst (index_change_password network_up example_wrong_change_body example_world)) = 400
   \<and> published (snd (index_change_password network_up example_wrong_change_body example_world)) = [example_row]
   \<and> patch_calls (snd (index_change_password network_up example_wrong_change_body example_world)) = []"
  using mismatch_is_rejected [where x = "user_password example_user" and p = "js ''wrong''"
      and req = example_wrong_reset and e = "js ''test@example.com''" and n = "js ''newpassword123''"
      and net = network_up and w = example_world and u = example_user
      and wl = "example_world\<lparr>calls := [GetRows Draft (Some (js ''test@example.com''))]\<rparr>"
      and b = example_wrong_body and u' = example_user
      and wl' = "example_world\<lparr>calls := [GetRows Published None]\<rparr>"
      and b' = example_wrong_change_body]
    example_lookup_draft example_lookup_index example_wrong_reset_request
    example_wrong_body_ok example_wrong_change_body_ok example_stored_not_wrong
  by (simp add: respond_def example_world_def patch_calls_def)

section \<open>A password against its own hash\<close>

lemma example_hashed_lookup_draft:
  "getUserByEmail_draft network_up (js ''test@example.com'') example_hashed_world =
     (Some example_hashed_user,
      example_hashed_world\<lparr>calls := [GetRows Draft (Some (js ''test@example.com''))]\<rparr>)"
  by (simp add: getUserByEmail_draft_def axios_get_def get_fails_def network_up_def rows_of_def
      example_hashed_world_def example_hashed_row_def example_hashed_user_def row_user_def Let_def)

lemma example_hashed_lookup_index:
  "getUserByEmail_index network_up (js ''test@example.com'') example_hashed_world =
     (Returns (Some example_hashed_user), example_hashed_world\<lparr>calls := [GetRows Published None]\<rparr>)"
  by (simp add: getUserByEmail_index_def axios_get_def get_fails_def network_up_def rows_of_def
      example_hashed_world_def example_hashed_row_def example_hashed_user_def rowEmail_def
      or_empty_def js_def Let_def)

lemma example_hashed_stored:
  "user_password example_hashed_user = hashPassword (js ''oldpassword123'')"
  by (simp add: example_hash_old example_hashed_user_def)

text \<open>
  Claim C8.  \<open>verify (digest p) p\<close> is \<open>AcceptedHashed\<close> for every password, and the
  handlers take the hashed path for a user whose stored value is the hash of the
  presented password: the login handler answers 200 having made no call but the
  lookup, and the reset and change handlers go on to write the new hash without
  the notice (and, on login, the write-back) of the plain-text path.
\<close>

theorem own_digest_accepted_as_hash:
  "verify (hashPassword p) p = AcceptedHashed
   \<and> (login_request req e p \<and> getUserByEmail_draft net e w = (Some u, wl)
        \<and> user_password u = hashPassword p \<longrightarrow>
        login_handler net req w =
          (respond 200 (MessageUser ''Login successful'' (user_id u) (user_email u) (user_name u)), wl))
   \<and> (reset_request req' e p n \<and> getUserByEmail_draft net e w = (Some u, wl)
        \<and> user_password u = hashPassword p \<longrightarrow>
        verified_reset_handler net req' w =
          (case updateUser_draft net (user_id u) (hashPassword n)
                  (console_log ''Debug - Hashed provided password:''
                    (console_log ''Debug - Provided password:''
                      (console_log ''Debug - Stored password:'' wl))) of
             (False, w4) \<Rightarrow> (respond 500 (Error ''Failed to update password''), w4)
           | (True, w4) \<Rightarrow>
               (respond 200 (MessageUserId ''Password updated successfully'' (user_id u)), w4)))
   \<and> (reset_body b e p n \<and> getUserByEmail_index net e w = (Returns (Some u'), wl')
        \<and> user_password u' = hashPassword p \<longrightarrow>
        index_reset_password net b w =
          (case updateUser_index net (user_id u') (hashPassword n) wl' of
             (Throws, w3) \<Rightarrow> (respond 500 (Error ''Internal server error''),
                                console_log ''Error in reset password:'' w3)
           | (Returns _, w3) \<Rightarrow> (respond 200 (Message ''Password reset successfully''), w3)))
   \<and> (change_body b' e p n \<and> getUserByEmail_index net e w = (Returns (Some u'), wl')
        \<and> user_password u' = hashPassword p \<longrightarrow>
        index_change_password net b' w =
          (case updateUser_index net (user_id u') (hashPassword n) wl' of
             (Throws, w3) \<Rightarrow> (respond 500 (Error ''Internal server error''),
                                console_log ''Error in change password:'' w3)
           | (Returns _, w3) \<Rightarrow> (respond 200 (Message ''Password changed successfully''), w3)))"
proof (intro conjI impI; (elim conjE)?)
  show "verify (hashPassword p) p = AcceptedHashed"
    by (simp add: verify_def)
qed (simp_all add: login_found verified_reset_found index_reset_found index_change_found Let_def)

theorem own_digest_accepted_as_hash_witness:
  "login_request example_login (js ''test@example.com'') (js ''oldpassword123'')
   \<and> reset_request example_reset (js ''test@example.com'') (js ''oldpassword123'') (js ''newpassword123'')
   \<and> reset_body example_reset_body (js ''test@example.com'') (js ''oldpassword123'') (js ''newpassword123'')
   \<and> change_body example_change_body (js ''test@example.com'') (js ''oldpassword123'') (js ''newpassword123'')
   \<and> fst (getUserByEmail_draft network_up (js ''test@example.com'') example_hashed_world)
        = Some example_hashed_user
   \<and> fst (getUserByEmail_index network_up (js ''test@example.com'') example_hashed_world)
        = Returns (Some example_hashed_user)
   \<and> user_password example_hashed_user = hashPassword (js ''oldpassword123'')
   \<and> status (fst (login_handler network_up example_login example_hashed_world)) = 200
   \<and> calls (snd (login_handler network_up example_login example_hashed_world)) =
        [GetRows Draft (Some (js ''test@example.com''))]
   \<and> console (snd (login_handler network_up example_login example_hashed_world)) = []
   \<and> status (fst (verified_reset_handler network_up example_reset example_hashed_world)) = 200
   \<and> ''Current password was plain text, converting to hash format''
        \<notin> set (console (snd (verified_reset_handler network_up example_reset example_hashed_world)))
   \<and> index_reset_password network_up example_reset_body example_hashed_world =
        (respond 200 (Message ''Password reset successfully''),
         \<lparr>draft = [example_hashed_row],
          published = [example_hashed_row\<lparr>v_password := js ''e3d4c17''\<rparr>],
          calls = [GetRows Published None, PatchRow Published (js ''1'') (js ''e3d4c17'')],
          console = []\<rparr>)
   \<and> index_change_password network_up example_change_body example_hashed_world =
        (respond 200 (Message ''Password changed successfully''),
         \<lparr>draft = [example_hashed_row],
          published = [example_hashed_row\<lparr>v_password := js ''e3d4c17''\<rparr>],
          calls = [GetRows Published None, PatchRow Published (js ''1'') (js ''e3d4c17'')],
          console = []\<rparr>)"
  using own_digest_accepted_as_hash [where p = "js ''oldpassword123''"
      and req = example_login and e = "js ''test@example.com''" and n = "js ''newpassword123''"
      and net = network_up and w = example_hashed_world and u = example_hashed_user
      and wl = "example_hashed_world\<lparr>calls := [GetRows Draft (Some (js ''test@example.com''))]\<rparr>"
      and req' = example_reset and b = example_reset_body and u' = example_hashed_user
      and wl' = "example_hashed_world\<lparr>calls := [GetRows Published None]\<rparr>"
      and b' = example_change_body]
    example_hashed_lookup_draft example_hashed_lookup_index example_login_request
    example_reset_request example_reset_body_ok example_change_body_ok example_hashed_stored
  by (simp add: respond_def example_hashed_world_def example_hashed_user_def example_hashed_row_def
      example_hash_new updateUser_draft_def updateUser_index_def axios_patch_def network_up_def
      rows_of_def has_row_def set_password_def console_log_def Let_def)

section \<open>Requests refused before the table is asked\<close>

lemma example_hash_short: "hashPassword (js ''short12'') = js ''7b365b9d''"
  by (simp add: hashPassword_def hash_acc_def js_def hash_step_def
      shiftLeft5_def toInt32_def charCode_def toString_radix16_def
      digits_radix.simps digit_unit_def)

lemma example_stored_plain:
  "user_password example_user \<noteq> hashPassword (js ''oldpassword123'')
   \<and> user_password example_user = js ''oldpassword123''"
  by (simp add: example_hash_old example_user_def)

lemma example_short_reset_request:
  "reset_request example_short_reset (js ''test@example.com'') (js ''oldpassword123'') (js ''short12'')"
  by (simp add: reset_request_def example_short_reset_def example_short_body_def js_def)

text \<open>
  Claim C4, as the code has it.  The reset and change routes of \<open>api/index.ts\<close> and
  of \<open>server.js\<close> answer 400 to a body in which one of the three fields is missing
  or empty, or whose new password has fewer than 8 code units, and leave the world
  as it was: no call on the table service has been made.  The serverless reset
  handler that takes the old password does so for a body in which one of the three
  fields is missing or empty.
\<close>

theorem invalid_request_refused_before_store:
  "(falsy (b ''email'') \<or> falsy (b ''oldPassword'') \<or> falsy (b ''newPassword'')
      \<or> length (str_of (b ''newPassword'')) < 8 \<longrightarrow>
      status (fst (index_reset_password net b w)) = 400 \<and> snd (index_reset_password net b w) = w
      \<and> status (fst (server_reset_password b w)) = 400 \<and> snd (server_reset_password b w) = w)
   \<and> (falsy (b ''email'') \<or> falsy (b ''currentPassword'') \<or> falsy (b ''newPassword'')
      \<or> length (str_of (b ''newPassword'')) < 8 \<longrightarrow>
      status (fst (index_change_password net b w)) = 400 \<and> snd (index_change_password net b w) = w
      \<and> status (fst (server_change_password b w)) = 400 \<and> snd (server_change_password b w) = w)
   \<and> (req_method req = POST
      \<and> (falsy (req_body req ''email'') \<or> falsy (req_body req ''oldPassword'')
          \<or> falsy (req_body req ''newPassword'')) \<longrightarrow>
      status (fst (verified_reset_handler net req w)) = 400
      \<and> snd (verified_reset_handler net req w) = w)"
  by (auto simp add: index_reset_password_def index_change_password_def server_reset_password_def
      server_change_password_def verified_reset_handler_def respond_def Let_def)

theorem invalid_request_refused_before_store_witness:
  "length (str_of (example_short_body ''newPassword'')) < 8
   \<and> length (str_of (example_short_change_body ''newPassword'')) < 8
   \<and> req_method example_missing_reset = POST
   \<and> falsy (req_body example_missing_reset ''oldPassword'')
   \<and> status (fst (index_reset_password network_up example_short_body example_world)) = 400
   \<and> snd (index_reset_password network_up example_short_body example_world) = example_world
   \<and> status (fst (server_reset_password example_short_body example_world)) = 400
   \<and> status (fst (index_change_password network_up example_short_change_body example_world)) = 400
   \<and> snd (index_change_password network_up example_short_change_body example_world) = example_world
   \<and> status (fst (server_change_password example_short_change_body example_world)) = 400
   \<and> status (fst (verified_reset_handler network_up example_missing_reset example_world)) = 400
   \<and> calls (snd (verified_reset_handler network_up example_missing_reset example_world)) = []"
proof -
  have short: "length (str_of (example_short_body ''newPassword'')) < 8"
    by (simp add: example_short_body_def str_of_def js_def)
  have short': "length (str_of (example_short_change_body ''newPassword'')) < 8"
    by (simp add: example_short_change_body_def str_of_def js_def)
  have post: "req_method example_missing_reset = POST"
    by (simp add: example_missing_reset_def)
  have missing: "falsy (req_body example_missing_reset ''oldPassword'')"
    by (simp add: example_missing_reset_def falsy_def)
  have world: "calls example_world = []"
    by (simp add: example_world_def)
  show ?thesis
    using invalid_request_refused_before_store [of example_short_body network_up example_world
        example_missing_reset]
      invalid_request_refused_before_store [of example_short_change_body network_up example_world
        example_missing_reset]
      short short' post missing world
    by simp
qed

text \<open>
  Claim C4 as stated fails at the serverless reset handler that takes the old
  password: it has no length check, so a new password of seven code units reaches
  the table, which is read and written, and the answer is 200.
\<close>

theorem short_password_reaches_store:
  "length (js ''short12'') < 8
   \<and> status (fst (verified_reset_handler network_up example_short_reset example_world)) = 200
   \<and> calls (snd (verified_reset_handler network_up example_short_reset example_world)) =
        [GetRows Draft (Some (js ''test@example.com'')), PatchRow Draft (js ''1'') (js ''7b365b9d'')]"
proof -
  have len: "length (js ''short12'') < 8"
    by (simp add: js_def)
  have run: "verified_reset_handler network_up example_short_reset example_world =
      (respond 200 (MessageUserId ''Password updated successfully'' (js ''1'')),
       \<lparr>draft = [example_row\<lparr>v_password := js ''7b365b9d''\<rparr>], published = [example_row],
        calls = [GetRows Draft (Some (js ''test@example.com'')),
                 PatchRow Draft (js ''1'') (js ''7b365b9d'')],
        console = [''Debug - Stored password:'', ''Debug - Provided password:'',
                   ''Debug - Hashed provided password:'',
                   ''Current password was plain text, converting to hash format'',
                   ''Updating user:'', ''Update successful:'']\<rparr>)"
    by (subst verified_reset_found [OF example_short_reset_request example_lookup_draft])
      (simp add: example_hash_old example_hash_short updateUser_draft_def axios_patch_def
        network_up_def rows_of_def has_row_def set_password_def console_log_def example_world_def
        example_user_def example_row_def Let_def)
  show ?thesis using len by (simp add: run respond_def)
qed

section \<open>An email address the table does not hold\<close>

lemma rowEmail_eq: "e \<noteq> [] \<Longrightarrow> (rowEmail row = Some e) = (v_email row = e)"
  by (auto simp add: rowEmail_def)

lemma find_None_filter: "filter P xs = [] \<Longrightarrow> find P xs = None"
  by (induction xs) (auto split: if_splits)

lemma getUserByEmail_index_unknown:
  assumes "e \<noteq> []" and "\<not> get_published_fails net"
    and "filter (\<lambda>r. v_email r = e) (published w) = []"
  shows "getUserByEmail_index net e w =
           (Returns None, w\<lparr>calls := calls w @ [GetRows Published None]\<rparr>)"
proof -
  have "(\<lambda>row. rowEmail row = Some e) = (\<lambda>r. v_email r = e)"
    using assms(1) by (simp add: rowEmail_eq)
  then have "find (\<lambda>row. rowEmail row = Some e) (published w) = None"
    using assms(3) by (simp add: find_None_filter)
  then show ?thesis
    using assms(2)
    by (simp add: getUserByEmail_index_def axios_get_def get_fails_def rows_of_def Let_def)
qed

lemma getUserByEmail_draft_unknown:
  assumes "filter (\<lambda>r. v_email r = e) (draft w) = []"
    and "filter (\<lambda>r. v_email r = e) (published w) = []"
  shows "fst (getUserByEmail_draft net e w) = None"
  using assms
  by (simp add: getUserByEmail_draft_def axios_get_def rows_of_def Let_def)

lemma getUserByEmail_published_unknown:
  assumes "filter (\<lambda>r. v_email r = e) (published w) = []"
  shows "fst (getUserByEmail_published net e w) = None"
  using assms
  by (simp add: getUserByEmail_published_def axios_get_def rows_of_def Let_def)

lemma verified_reset_not_found:
  assumes "reset_request req e p n" and "getUserByEmail_draft net e w = (None, wl)"
  shows "verified_reset_handler net req w = (respond 404 (Error ''User not found''), wl)"
  using assms
  by (simp add: reset_request_def verified_reset_handler_def Let_def falsy_def str_of_def)

lemma reset_password_not_found:
  assumes "simple_reset_request req e n"
    and "getUserByEmail_published net e w = (None, wl)"
  shows "reset_password_handler net req w = (respond 404 (Error ''User not found''), wl)"
  using assms
  by (simp add: simple_reset_request_def reset_password_handler_def Let_def falsy_def str_of_def)

lemma index_reset_not_found:
  assumes "reset_body b e p n" and "getUserByEmail_index net e w = (Returns None, wl)"
  shows "index_reset_password net b w = (respond 400 (Error ''User not found''), wl)"
proof -
  from assms(1) have "n \<noteq> []" by (auto simp add: reset_body_def)
  with assms show ?thesis
    by (simp add: reset_body_def index_reset_password_def Let_def falsy_def str_of_def)
qed

lemma index_change_not_found:
  assumes "change_body b e p n" and "getUserByEmail_index net e w = (Returns None, wl)"
  shows "index_change_password net b w = (respond 400 (Error ''User not found''), wl)"
proof -
  from assms(1) have "n \<noteq> []" by (auto simp add: change_body_def)
  with assms show ?thesis
    by (simp add: change_body_def index_change_password_def Let_def falsy_def str_of_def)
qed

text \<open>
  Claim C5, as the code has it.  For a reset or change request whose email address
  is the email of no row, no PATCH call is made and both versions of the table stay
  as they were; the serverless reset handlers answer 404, and the reset and
  change routes of \<open>api/index.ts\<close>, when the lookup completes, answer 400, both
  with the error text \<open>User not found\<close>.
\<close>

theorem unknown_user_not_written:
  "(reset_body b e p n \<and> \<not> get_published_fails net
      \<and> filter (\<lambda>r. v_email r = e) (published w) = [] \<longrightarrow>
      fst (index_reset_password net b w) = respond 400 (Error ''User not found'')
      \<and> draft (snd (index_reset_password net b w)) = draft w
      \<and> published (snd (index_reset_password net b w)) = published w
      \<and> patch_calls (snd (index_reset_password net b w)) = patch_calls w)
   \<and> (change_body b' e p n \<and> \<not> get_published_fails net
      \<and> filter (\<lambda>r. v_email r = e) (published w) = [] \<longrightarrow>
      fst (index_change_password net b' w) = respond 400 (Error ''User not found'')
      \<and> draft (snd (index_change_password net b' w)) = draft w
      \<and> published (snd (index_change_password net b' w)) = published w
      \<and> patch_calls (snd (index_change_password net b' w)) = patch_calls w)
   \<and> (reset_request req e p n \<and> filter (\<lambda>r. v_email r = e) (draft w) = []
      \<and> filter (\<lambda>r. v_email r = e) (published w) = [] \<longrightarrow>
      fst (verified_reset_handler net req w) = respond 404 (Error ''User not found'')
      \<and> draft (snd (verified_reset_handler net req w)) = draft w
      \<and> published (snd (verified_reset_handler net req w)) = published w
      \<and> patch_calls (snd (verified_reset_handler net req w)) = patch_calls w)
   \<and> (simple_reset_request req' e n
      \<and> filter (\<lambda>r. v_email r = e) (published w) = [] \<longrightarrow>
      fst (reset_password_handler net req' w) = respond 404 (Error ''User not found'')
      \<and> draft (snd (reset_password_handler net req' w)) = draft w
      \<and> published (snd (reset_password_handler net req' w)) = published w
      \<and> patch_calls (snd (reset_password_handler net req' w)) = patch_calls w)"
proof -
  have i: "fst (index_reset_password net b w) = respond 400 (Error ''User not found'')
      \<and> draft (snd (index_reset_password net b w)) = draft w
      \<and> published (snd (index_reset_password net b w)) = published w
      \<and> patch_calls (snd (index_reset_password net b w)) = patch_calls w"
    if "reset_body b e p n" and "\<not> get_published_fails net"
      and "filter (\<lambda>r. v_email r = e) (published w) = []"
  proof -
    have "e \<noteq> []" using that(1) by (simp add: reset_body_def)
    then show ?thesis
      using index_reset_not_found [OF that(1) getUserByEmail_index_unknown [OF _ that(2) that(3)]]
      by (simp add: patch_calls_def)
  qed
  have c: "fst (index_change_password net b' w) = respond 400 (Error ''User not found'')
      \<and> draft (snd (index_change_password net b' w)) = draft w
      \<and> published (snd (index_change_password net b' w)) = published w
      \<and> patch_calls (snd (index_change_password net b' w)) = patch_calls w"
    if "change_body b' e p n" and "\<not> get_published_fails net"
      and "filter (\<lambda>r. v_email r = e) (published w) = []"
  proof -
    have "e \<noteq> []" using that(1) by (simp add: change_body_def)
    then show ?thesis
      using index_change_not_found [OF that(1) getUserByEmail_index_unknown [OF _ that(2) that(3)]]
      by (simp add: patch_calls_def)
  qed
  have r: "fst (verified_reset_handler net req w) = respond 404 (Error ''User not found'')
      \<and> draft (snd (verified_reset_handler net req w)) = draft w
      \<and> published (snd (verified_reset_handler net req w)) = published w
      \<and> patch_calls (snd (verified_reset_handler net req w)) = patch_calls w"
    if h: "reset_request req e p n" "filter (\<lambda>r. v_email r = e) (draft w) = []"
      "filter (\<lambda>r. v_email r = e) (published w) = []"
  proof -
    obtain wl where l: "getUserByEmail_draft net e w = (None, wl)"
      using getUserByEmail_draft_unknown [OF h(2) h(3), of net]
      by (cases "getUserByEmail_draft net e w") simp
    show ?thesis
      using verified_reset_not_found [OF h(1) l] getUserByEmail_draft_frame [OF l]
      by simp
  qed
  have s: "fst (reset_password_handler net req' w) = respond 404 (Error ''User not found'')
      \<and> draft (snd (reset_password_handler net req' w)) = draft w
      \<and> published (snd (reset_password_handler net req' w)) = published w
      \<and> patch_calls (snd (reset_password_handler net req' w)) = patch_calls w"
    if h: "simple_reset_request req' e n" "filter (\<lambda>r. v_email r = e) (published w) = []"
  proof -
    obtain wl where l: "getUserByEmail_published net e w = (None, wl)"
      using getUserByEmail_published_unknown [OF h(2), of net]
      by (cases "getUserByEmail_published net e w") simp
    show ?thesis
      using reset_password_not_found [OF h(1) l] getUserByEmail_published_frame [OF l]
      by simp
  qed
  from i c r s show ?thesis by blast
qed

lemma example_unknown_body_ok:
  "reset_body example_unknown_body (js ''nobody@example.com'') (js ''oldpassword123'')
     (js ''newpassword123'')"
  by (simp add: reset_body_def example_unknown_body_def)

lemma example_unknown_change_body_ok:
  "change_body example_unknown_change_body (js ''nobody@example.com'') (js ''oldpassword123'')
     (js ''newpassword123'')"
  by (simp add: change_body_def example_unknown_change_body_def)

lemma example_unknown_reset_request:
  "reset_request example_unknown_reset (js ''nobody@example.com'') (js ''oldpassword123'')
     (js ''newpassword123'')"
  by (simp add: reset_request_def example_unknown_reset_def example_unknown_body_def)

lemma example_unknown_simple_reset_request:
  "simple_reset_request example_unknown_reset (js ''nobody@example.com'') (js ''newpassword123'')"
  by (simp add: simple_reset_request_def example_unknown_reset_def example_unknown_body_def)

lemma example_unknown_email:
  "filter (\<lambda>r. v_email r = js ''nobody@example.com'') (draft example_world) = []
   \<and> filter (\<lambda>r. v_email r = js ''nobody@example.com'') (published example_world) = []
   \<and> \<not> get_published_fails network_up"
  by (simp add: example_world_def example_row_def network_up_def)

theorem unknown_user_not_written_witness:
  "reset_body example_unknown_body (js ''nobody@example.com'') (js ''oldpassword123'')
     (js ''newpassword123'')
   \<and> change_body example_unknown_change_body (js ''nobody@example.com'') (js ''oldpassword123'')
     (js ''newpassword123'')
   \<and> reset_request example_unknown_reset (js ''nobody@example.com'') (js ''oldpassword123'')
     (js ''newpassword123'')
   \<and> simple_reset_request example_unknown_reset (js ''nobody@example.com'') (js ''newpassword123'')
   \<and> filter (\<lambda>r. v_email r = js ''nobody@example.com'') (draft example_world) = []
   \<and> filter (\<lambda>r. v_email r = js ''nobody@example.com'') (published example_world) = []
   \<and> \<not> get_published_fails network_up
   \<and> status (fst (index_reset_password network_up example_unknown_body example_world)) = 400
   \<and> patch_calls (snd (index_reset_password network_up example_unknown_body example_world)) = []
   \<and> status (fst (index_change_password network_up example_unknown_change_body example_world)) = 400
   \<and> patch_calls (snd (index_change_password network_up example_unknown_change_body example_world)) = []
   \<and> status (fst (verified_reset_handler network_up example_unknown_reset example_world)) = 404
   \<and> patch_calls (snd (verified_reset_handler network_up example_unknown_reset example_world)) = []
   \<and> status (fst (reset_password_handler network_up example_unknown_reset example_world)) = 404
   \<and> patch_calls (snd (reset_password_handler network_up example_unknown_reset example_world)) = []"
proof -
  have none: "patch_calls example_world = []"
    by (simp add: patch_calls_def example_world_def)
  show ?thesis
    using unknown_user_not_written [where b = example_unknown_body
        and e = "js ''nobody@example.com''" and p = "js ''oldpassword123''"
        and n = "js ''newpassword123''" and net = network_up and w = example_world
        and b' = example_unknown_change_body and req = example_unknown_reset
        and req' = example_unknown_reset]
      example_unknown_body_ok example_unknown_change_body_ok example_unknown_reset_request
      example_unknown_simple_reset_request example_unknown_email none
    by (simp add: respond_def)
qed

text \<open>
  Claim C5 as stated fails at \<open>api/index.ts\<close>: for an email address that no row
  holds, its reset and change routes answer 400, not 404.
\<close>

theorem index_unknown_user_is_400:
  "filter (\<lambda>r. v_email r = js ''nobody@example.com'') (published example_world) = []
   \<and> index_reset_password network_up example_unknown_body example_world =
        (respond 400 (Error ''User not found''),
         example_world\<lparr>calls := [GetRows Published None]\<rparr>)
   \<and> index_change_password network_up example_unknown_change_body example_world =
        (respond 400 (Error ''User not found''),
         example_world\<lparr>calls := [GetRows Published None]\<rparr>)
   \<and> status (respond 400 (Error ''User not found'')) \<noteq> 404"
proof -
  have e: "js ''nobody@example.com'' \<noteq> []" by simp
  have f: "filter (\<lambda>r. v_email r = js ''nobody@example.com'') (published example_world) = []"
    and up: "\<not> get_published_fails network_up"
    using example_unknown_email by simp_all
  have l: "getUserByEmail_index network_up (js ''nobody@example.com'') example_world =
      (Returns None, example_world\<lparr>calls := [GetRows Published None]\<rparr>)"
    using getUserByEmail_index_unknown [OF e up f] by (simp add: example_world_def)
  show ?thesis
    using f index_reset_not_found [OF example_unknown_body_ok l]
      index_change_not_found [OF example_unknown_change_body_ok l]
    by (simp add: respond_def)
qed

section \<open>Failures of the table service\<close>

lemma getUserByEmail_index_throws:
  "get_published_fails net \<Longrightarrow>
     getUserByEmail_index net e w =
       (Throws, console_log ''Error getting user by email:''
                  (w\<lparr>calls := calls w @ [GetRows Published None]\<rparr>))"
  by (simp add: getUserByEmail_index_def axios_get_def get_fails_def Let_def)

lemma getUserByEmail_draft_fails:
  "get_draft_fails net \<Longrightarrow>
     getUserByEmail_draft net e w =
       (None, console_log ''Error fetching user:''
                (w\<lparr>calls := calls w @ [GetRows Draft (Some e)]\<rparr>))"
  by (simp add: getUserByEmail_draft_def axios_get_def get_fails_def Let_def)

lemma getUserByEmail_published_fails:
  "get_published_fails net \<Longrightarrow>
     getUserByEmail_published net e w =
       (None, console_log ''Error fetching user:''
                (w\<lparr>calls := calls w @ [GetRows Published (Some e)]\<rparr>))"
  by (simp add: getUserByEmail_published_def axios_get_def get_fails_def Let_def)

lemma index_reset_lookup_throws:
  assumes "reset_body b e p n" and "getUserByEmail_index net e w = (Throws, wl)"
  shows "index_reset_password net b w =
           (respond 500 (Error ''Internal server error''), console_log ''Error in reset password:'' wl)"
proof -
  from assms(1) have "n \<noteq> []" by (auto simp add: reset_body_def)
  with assms show ?thesis
    by (simp add: reset_body_def index_reset_password_def Let_def falsy_def str_of_def)
qed

lemma index_change_lookup_throws:
  assumes "change_body b e p n" and "getUserByEmail_index net e w = (Throws, wl)"
  shows "index_change_password net b w =
           (respond 500 (Error ''Internal server error''), console_log ''Error in change password:'' wl)"
proof -
  from assms(1) have "n \<noteq> []" by (auto simp add: change_body_def)
  with assms show ?thesis
    by (simp add: change_body_def index_change_password_def Let_def falsy_def str_of_def)
qed

lemma login_not_found:
  assumes "login_request req e p" and "getUserByEmail_draft net e w = (None, wl)"
  shows "login_handler net req w = (respond 401 (Error ''Invalid email or password''), wl)"
  using assms
  by (simp add: login_request_def login_handler_def Let_def falsy_def str_of_def)

lemma reset_password_found:
  assumes "simple_reset_request req e n" and "getUserByEmail_published net e w = (Some u, wl)"
  shows "reset_password_handler net req w =
     (case updateUser_published net (user_id u) (hashPassword_decimal n) wl of
        (False, w2) \<Rightarrow> (respond 500 (Error ''Failed to update password''), w2)
      | (True, w2) \<Rightarrow>
          (respond 200 (MessageUserId ''Password updated successfully'' (user_id u)), w2))"
  using assms
  by (simp add: simple_reset_request_def reset_password_handler_def Let_def falsy_def str_of_def)

lemma updateUser_index_fails:
  "patch_fails net \<Longrightarrow>
     updateUser_index net rid pw w =
       (Throws, console_log ''Error updating user:''
                  (w\<lparr>calls := calls w @ [PatchRow Published rid pw]\<rparr>))"
  by (simp add: updateUser_index_def axios_patch_fails)

lemma updateUser_draft_fails:
  "patch_fails net \<Longrightarrow>
     updateUser_draft net rid pw w =
       (False, console_log ''Error updating user:''
                 ((console_log ''Updating user:'' w)
                    \<lparr>calls := calls w @ [PatchRow Draft rid pw]\<rparr>))"
  by (simp add: updateUser_draft_def axios_patch_fails)

lemma updateUser_published_fails:
  "patch_fails net \<Longrightarrow>
     updateUser_published net rid pw w =
       (False, console_log ''Error updating user:''
                 (w\<lparr>calls := calls w @ [PatchRow Published rid pw]\<rparr>))"
  by (simp add: updateUser_published_def axios_patch_fails)

lemma verify_cases:
  "verify x p \<noteq> Rejected \<longleftrightarrow> x = hashPassword p \<or> x = p"
  "verify x p = AcceptedPlaintextNeedsUpgrade \<longleftrightarrow> x \<noteq> hashPassword p \<and> x = p"
  "verify x p = AcceptedHashed \<longleftrightarrow> x = hashPassword p"
  by (auto simp add: verify_def Let_def)

text \<open>
  Claim C2, as the code has it.  A failed write is answered with 500 by every reset
  and change handler; the write-back of the login handler is the exception: when
  it fails the login is still answered 200 and both versions of the table are as
  before.  A failed lookup is answered with 500 by the routes of \<open>api/index.ts\<close>
  only: \<open>getUserByEmail\<close> of the serverless handlers catches the failure and
  returns \<open>null\<close>, and the handlers answer as for an unknown user, 404 on reset and
  401 on login.
\<close>

theorem storage_failures:
  "(reset_body b e p n \<and> get_published_fails net \<longrightarrow>
      fst (index_reset_password net b w) = respond 500 (Error ''Internal server error''))
   \<and> (change_body b' e p n \<and> get_published_fails net \<longrightarrow>
      fst (index_change_password net b' w) = respond 500 (Error ''Internal server error''))
   \<and> (reset_body b e p n \<and> getUserByEmail_index net e w = (Returns (Some u'), wl')
      \<and> verify (user_password u') p \<noteq> Rejected \<and> patch_fails net \<longrightarrow>
      fst (index_reset_password net b w) = respond 500 (Error ''Internal server error''))
   \<and> (change_body b' e p n \<and> getUserByEmail_index net e w = (Returns (Some u'), wl')
      \<and> verify (user_password u') p \<noteq> Rejected \<and> patch_fails net \<longrightarrow>
      fst (index_change_password net b' w) = respond 500 (Error ''Internal server error''))
   \<and> (reset_request req e p n \<and> getUserByEmail_draft net e w = (Some u, wl)
      \<and> verify (user_password u) p \<noteq> Rejected \<and> patch_fails net \<longrightarrow>
      fst (verified_reset_handler net req w) = respond 500 (Error ''Failed to update password''))
   \<and> (simple_reset_request req' e n \<and> getUserByEmail_published net e w = (Some u, wl'')
      \<and> patch_fails net \<longrightarrow>
      fst (reset_password_handler net req' w) = respond 500 (Error ''Failed to update password''))
   \<and> (login_request req'' e p \<and> getUserByEmail_draft net e w = (Some u, wl)
      \<and> verify (user_password u) p = AcceptedPlaintextNeedsUpgrade \<and> patch_fails net \<longrightarrow>
      status (fst (login_handler net req'' w)) = 200
      \<and> draft (snd (login_handler net req'' w)) = draft w
      \<and> published (snd (login_handler net req'' w)) = published w)
   \<and> (reset_request req e p n \<and> get_draft_fails net \<longrightarrow>
      fst (verified_reset_handler net req w) = respond 404 (Error ''User not found''))
   \<and> (simple_reset_request req' e n \<and> get_published_fails net \<longrightarrow>
      fst (reset_password_handler net req' w) = respond 404 (Error ''User not found''))
   \<and> (login_request req'' e p \<and> get_draft_fails net \<longrightarrow>
      fst (login_handler net req'' w) = respond 401 (Error ''Invalid email or password''))"
proof -
  have a: "fst (index_reset_password net b w) = respond 500 (Error ''Internal server error'')"
    if "reset_body b e p n" and "get_published_fails net"
    by (simp add: index_reset_lookup_throws [OF that(1) getUserByEmail_index_throws [OF that(2)]])
  have a': "fst (index_change_password net b' w) = respond 500 (Error ''Internal server error'')"
    if "change_body b' e p n" and "get_published_fails net"
    by (simp add: index_change_lookup_throws [OF that(1) getUserByEmail_index_throws [OF that(2)]])
  have b: "fst (index_reset_password net b w) = respond 500 (Error ''Internal server error'')"
    if "reset_body b e p n" and "getUserByEmail_index net e w = (Returns (Some u'), wl')"
      and "verify (user_password u') p \<noteq> Rejected" and "patch_fails net"
    using that(3)
    by (auto simp add: index_reset_found [OF that(1) that(2)] verify_cases Let_def
        updateUser_index_fails [OF that(4)])
  have b': "fst (index_change_password net b' w) = respond 500 (Error ''Internal server error'')"
    if "change_body b' e p n" and "getUserByEmail_index net e w = (Returns (Some u'), wl')"
      and "verify (user_password u') p \<noteq> Rejected" and "patch_fails net"
    using that(3)
    by (auto simp add: index_change_found [OF that(1) that(2)] verify_cases Let_def
        updateUser_index_fails [OF that(4)])
  have c: "fst (verified_reset_handler net req w) = respond 500 (Error ''Failed to update password'')"
    if "reset_request req e p n" and "getUserByEmail_draft net e w = (Some u, wl)"
      and "verify (user_password u) p \<noteq> Rejected" and "patch_fails net"
    using that(3)
    by (auto simp add: verified_reset_found [OF that(1) that(2)] verify_cases Let_def
        updateUser_draft_fails [OF that(4)])
  have d: "fst (reset_password_handler net req' w) = respond 500 (Error ''Failed to update password'')"
    if "simple_reset_request req' e n" and "getUserByEmail_published net e w = (Some u, wl'')"
      and "patch_fails net"
    by (simp add: reset_password_found [OF that(1) that(2)] updateUser_published_fails [OF that(3)])
  have e: "status (fst (login_handler net req'' w)) = 200
      \<and> draft (snd (login_handler net req'' w)) = draft w
      \<and> published (snd (login_handler net req'' w)) = published w"
    if "login_request req'' e p" and "getUserByEmail_draft net e w = (Some u, wl)"
      and "verify (user_password u) p = AcceptedPlaintextNeedsUpgrade" and "patch_fails net"
    using that(3) getUserByEmail_draft_frame [OF that(2)]
    by (simp add: login_found [OF that(1) that(2)] verify_cases Let_def
        axios_patch_fails [OF that(4)] respond_def)
  have f: "fst (verified_reset_handler net req w) = respond 404 (Error ''User not found'')"
    if "reset_request req e p n" and "get_draft_fails net"
    by (simp add: verified_reset_not_found [OF that(1) getUserByEmail_draft_fails [OF that(2)]])
  have g: "fst (reset_password_handler net req' w) = respond 404 (Error ''User not found'')"
    if "simple_reset_request req' e n" and "get_published_fails net"
    by (simp add: reset_password_not_found [OF that(1) getUserByEmail_published_fails [OF that(2)]])
  have h: "fst (login_handler net req'' w) = respond 401 (Error ''Invalid email or password'')"
    if "login_request req'' e p" and "get_draft_fails net"
    by (simp add: login_not_found [OF that(1) getUserByEmail_draft_fails [OF that(2)]])
  show ?thesis
    by (intro conjI impI; elim conjE)
      (rule a a' b b' c d f g h e [THEN conjunct1] e [THEN conjunct2, THEN conjunct1]
         e [THEN conjunct2, THEN conjunct2]; assumption)+
qed

lemma example_reset_is_simple_request:
  "simple_reset_request example_reset (js ''test@example.com'') (js ''newpassword123'')"
  by (simp add: simple_reset_request_def example_reset_def example_reset_body_def)

lemma network_get_fails_flags:
  "get_draft_fails network_get_fails \<and> get_published_fails network_get_fails"
  by (simp add: network_get_fails_def)

lemma network_patch_fails_flag: "patch_fails network_patch_fails"
  by (simp add: network_patch_fails_def)

lemma example_lookup_draft_patch_fails:
  "getUserByEmail_draft network_patch_fails (js ''test@example.com'') example_world =
     (Some example_user, example_world\<lparr>calls := [GetRows Draft (Some (js ''test@example.com''))]\<rparr>)"
  by (simp add: getUserByEmail_draft_def axios_get_def get_fails_def network_patch_fails_def
      rows_of_def example_world_def example_row_def example_user_def row_user_def Let_def)

lemma example_lookup_published_patch_fails:
  "getUserByEmail_published network_patch_fails (js ''test@example.com'') example_world =
     (Some example_user,
      example_world\<lparr>calls := [GetRows Published (Some (js ''test@example.com''))]\<rparr>)"
  by (simp add: getUserByEmail_published_def axios_get_def get_fails_def network_patch_fails_def
      rows_of_def example_world_def example_row_def example_user_def row_user_def Let_def)

lemma example_lookup_index_patch_fails:
  "getUserByEmail_index network_patch_fails (js ''test@example.com'') example_world =
     (Returns (Some example_user), example_world\<lparr>calls := [GetRows Published None]\<rparr>)"
  by (simp add: getUserByEmail_index_def axios_get_def get_fails_def network_patch_fails_def
      rows_of_def example_world_def example_row_def example_user_def rowEmail_def or_empty_def
      Let_def)

theorem storage_failures_witness:
  "get_draft_fails network_get_fails \<and> get_published_fails network_get_fails
   \<and> patch_fails network_patch_fails
   \<and> reset_body example_reset_body (js ''test@example.com'') (js ''oldpassword123'') (js ''newpassword123'')
   \<and> change_body example_change_body (js ''test@example.com'') (js ''oldpassword123'') (js ''newpassword123'')
   \<and> reset_request example_reset (js ''test@example.com'') (js ''oldpassword123'') (js ''newpassword123'')
   \<and> simple_reset_request example_reset (js ''test@example.com'') (js ''newpassword123'')
   \<and> login_request example_login (js ''test@example.com'') (js ''oldpassword123'')
   \<and> fst (getUserByEmail_index network_patch_fails (js ''test@example.com'') example_world)
        = Returns (Some example_user)
   \<and> fst (getUserByEmail_draft network_patch_fails (js ''test@example.com'') example_world)
        = Some example_user
   \<and> fst (getUserByEmail_published network_patch_fails (js ''test@example.com'') example_world)
        = Some example_user
   \<and> verify (user_password example_user) (js ''oldpassword123'') = AcceptedPlaintextNeedsUpgrade
   \<and> status (fst (index_reset_password network_get_fails example_reset_body example_world)) = 500
   \<and> status (fst (index_change_password network_get_fails example_change_body example_world)) = 500
   \<and> status (fst (index_reset_password network_patch_fails example_reset_body example_world)) = 500
   \<and> status (fst (index_change_password network_patch_fails example_change_body example_world)) = 500
   \<and> status (fst (verified_reset_handler network_patch_fails example_reset example_world)) = 500
   \<and> status (fst (reset_password_handler network_patch_fails example_reset example_world)) = 500
   \<and> status (fst (login_handler network_patch_fails example_login example_world)) = 200
   \<and> draft (snd (login_handler network_patch_fails example_login example_world)) = [example_row]
   \<and> status (fst (verified_reset_handler network_get_fails example_reset example_world)) = 404
   \<and> status (fst (reset_password_handler network_get_fails example_reset example_world)) = 404
   \<and> status (fst (login_handler network_get_fails example_login example_world)) = 401"
proof -
  have v: "verify (user_password example_user) (js ''oldpassword123'') \<noteq> Rejected"
    by (simp add: example_verify)
  have d: "draft example_world = [example_row]"
    by (simp add: example_world_def)
  show ?thesis
    using storage_failures [where net = network_get_fails and w = example_world
        and e = "js ''test@example.com''" and p = "js ''oldpassword123''"
        and n = "js ''newpassword123''" and b = example_reset_body and b' = example_change_body
        and req = example_reset and req' = example_reset and req'' = example_login]
      storage_failures [where net = network_patch_fails and w = example_world
        and e = "js ''test@example.com''" and p = "js ''oldpassword123''"
        and n = "js ''newpassword123''" and b = example_reset_body and b' = example_change_body
        and req = example_reset and req' = example_reset and req'' = example_login
        and u = example_user and u' = example_user
        and wl = "example_world\<lparr>calls := [GetRows Draft (Some (js ''test@example.com''))]\<rparr>"
        and wl' = "example_world\<lparr>calls := [GetRows Published None]\<rparr>"
        and wl'' = "example_world\<lparr>calls := [GetRows Published (Some (js ''test@example.com''))]\<rparr>"]
      network_get_fails_flags network_patch_fails_flag example_reset_body_ok
      example_change_body_ok example_reset_request example_reset_is_simple_request
      example_login_request example_lookup_index_patch_fails example_lookup_draft_patch_fails
      example_lookup_published_patch_fails example_verify v d
    by (simp add: respond_def)
qed

text \<open>
  Claim C2 as stated fails at the serverless handlers: when the GET of the rows
  fails, \<open>getUserByEmail\<close> returns \<open>null\<close> and the answer is 404 on reset and 401 on
  login, not 500.
\<close>

theorem lookup_failure_is_not_500:
  "get_draft_fails network_get_fails \<and> get_published_fails network_get_fails
   \<and> fst (verified_reset_handler network_get_fails example_reset example_world)
        = respond 404 (Error ''User not found'')
   \<and> fst (reset_password_handler network_get_fails example_reset example_world)
        = respond 404 (Error ''User not found'')
   \<and> fst (login_handler network_get_fails example_login example_world)
        = respond 401 (Error ''Invalid email or password'')"
proof -
  have g: "get_draft_fails network_get_fails" "get_published_fails network_get_fails"
    using network_get_fails_flags by simp_all
  show ?thesis
    using g
    by (simp add: verified_reset_not_found [OF example_reset_request getUserByEmail_draft_fails [OF g(1)]]
        reset_password_not_found [OF example_reset_is_simple_request getUserByEmail_published_fails [OF g(2)]]
        login_not_found [OF example_login_request getUserByEmail_draft_fails [OF g(1)]])
qed

section \<open>The stored value after a request that succeeded\<close>

lemma updateUser_index_returns:
  "updateUser_index net rid pw w = (Returns x, w3) \<Longrightarrow>
     stored_password rid (published w3) = Some pw"
  by (auto simp add: updateUser_index_def split: prod.splits bool.splits
      dest: axios_patch_ok_published)

lemma updateUser_draft_true:
  "updateUser_draft net rid pw w = (True, w4) \<Longrightarrow> stored_password rid (draft w4) = Some pw"
  by (auto simp add: updateUser_draft_def split: prod.splits bool.splits
      dest: axios_patch_ok_draft)

lemma index_update_stored:
  assumes "status (fst (case updateUser_index net rid pw w2 of
              (Throws, w3) \<Rightarrow> (respond 500 err, console_log m w3)
            | (Returns x, w3) \<Rightarrow> (respond 200 msg, w3))) = 200"
  shows "stored_password rid (published (snd (case updateUser_index net rid pw w2 of
              (Throws, w3) \<Rightarrow> (respond 500 err, console_log m w3)
            | (Returns x, w3) \<Rightarrow> (respond 200 msg, w3)))) = Some pw"
proof (cases "updateUser_index net rid pw w2")
  case (Pair r w3)
  with assms show ?thesis
    by (cases r) (auto simp add: respond_def dest: updateUser_index_returns)
qed

lemma draft_update_stored:
  assumes "status (fst (case updateUser_draft net rid pw w3 of
              (False, w4) \<Rightarrow> (respond 500 err, w4)
            | (True, w4) \<Rightarrow> (respond 200 msg, w4))) = 200"
  shows "stored_password rid (draft (snd (case updateUser_draft net rid pw w3 of
              (False, w4) \<Rightarrow> (respond 500 err, w4)
            | (True, w4) \<Rightarrow> (respond 200 msg, w4)))) = Some pw"
proof (cases "updateUser_draft net rid pw w3")
  case (Pair r w4)
  with assms show ?thesis
    by (cases r) (auto simp add: respond_def dest: updateUser_draft_true)
qed

lemma axios_patch_succeeds:
  "\<not> patch_fails net \<Longrightarrow> has_row rid (rows_of v w) \<Longrightarrow> fst (axios_patch net v rid pw w) = True"
  by (simp add: axios_patch_def Let_def)

text \<open>
  Claim C3, as the code has it.  After a reset or change request that was answered
  200 (the routes of \<open>api/index.ts\<close> and the serverless reset handler that takes the
  old password), the row of the user holds the hash of the new password.  After a
  login that matched the stored hash, the stored value is the hash of the presented
  password and the table is as before.  After a login that matched the stored plain
  text, the row of the user holds the hash of the presented password provided the
  write-back went through (the PATCH did not fail and the draft table has the
  row).
\<close>

theorem stored_value_after_success:
  "(reset_body b e p n \<and> getUserByEmail_index net e w = (Returns (Some u'), wl')
      \<and> status (fst (index_reset_password net b w)) = 200 \<longrightarrow>
      stored_password (user_id u') (published (snd (index_reset_password net b w)))
        = Some (hashPassword n))
   \<and> (change_body b' e p n \<and> getUserByEmail_index net e w = (Returns (Some u'), wl')
      \<and> status (fst (index_change_password net b' w)) = 200 \<longrightarrow>
      stored_password (user_id u') (published (snd (index_change_password net b' w)))
        = Some (hashPassword n))
   \<and> (reset_request req e p n \<and> getUserByEmail_draft net e w = (Some u, wl)
      \<and> status (fst (verified_reset_handler net req w)) = 200 \<longrightarrow>
      stored_password (user_id u) (draft (snd (verified_reset_handler net req w)))
        = Some (hashPassword n))
   \<and> (login_request req' e p \<and> getUserByEmail_draft net e w = (Some u, wl)
      \<and> verify (user_password u) p = AcceptedHashed \<longrightarrow>
      status (fst (login_handler net req' w)) = 200
      \<and> user_password u = hashPassword p
      \<and> draft (snd (login_handler net req' w)) = draft w
      \<and> published (snd (login_handler net req' w)) = published w)
   \<and> (login_request req' e p \<and> getUserByEmail_draft net e w = (Some u, wl)
      \<and> verify (user_password u) p = AcceptedPlaintextNeedsUpgrade
      \<and> \<not> patch_fails net \<and> has_row (user_id u) (draft w) \<longrightarrow>
      status (fst (login_handler net req' w)) = 200
      \<and> stored_password (user_id u) (draft (snd (login_handler net req' w)))
          = Some (hashPassword p))"
proof -
  have a: "stored_password (user_id u') (published (snd (index_reset_password net b w)))
        = Some (hashPassword n)"
    if h: "reset_body b e p n" "getUserByEmail_index net e w = (Returns (Some u'), wl')"
      "status (fst (index_reset_password net b w)) = 200"
    using h(3) unfolding index_reset_found [OF h(1) h(2)] Let_def
    by (auto simp add: respond_def [of 400] split: if_splits intro: index_update_stored)
  have a': "stored_password (user_id u') (published (snd (index_change_password net b' w)))
        = Some (hashPassword n)"
    if h: "change_body b' e p n" "getUserByEmail_index net e w = (Returns (Some u'), wl')"
      "status (fst (index_change_password net b' w)) = 200"
    using h(3) unfolding index_change_found [OF h(1) h(2)] Let_def
    by (auto simp add: respond_def [of 400] split: if_splits intro: index_update_stored)
  have c: "stored_password (user_id u) (draft (snd (verified_reset_handler net req w)))
        = Some (hashPassword n)"
    if h: "reset_request req e p n" "getUserByEmail_draft net e w = (Some u, wl)"
      "status (fst (verified_reset_handler net req w)) = 200"
    using h(3) unfolding verified_reset_found [OF h(1) h(2)] Let_def
    by (auto simp add: respond_def [of 400] split: if_splits intro: draft_update_stored)
  have d: "status (fst (login_handler net req' w)) = 200
      \<and> user_password u = hashPassword p
      \<and> draft (snd (login_handler net req' w)) = draft w
      \<and> published (snd (login_handler net req' w)) = published w"
    if h: "login_request req' e p" "getUserByEmail_draft net e w = (Some u, wl)"
      "verify (user_password u) p = AcceptedHashed"
    using h(3) getUserByEmail_draft_frame [OF h(2)]
    by (simp add: login_found [OF h(1) h(2)] verify_cases Let_def respond_def)
  have e: "status (fst (login_handler net req' w)) = 200
      \<and> stored_password (user_id u) (draft (snd (login_handler net req' w)))
          = Some (hashPassword p)"
    if h: "login_request req' e p" "getUserByEmail_draft net e w = (Some u, wl)"
      "verify (user_password u) p = AcceptedPlaintextNeedsUpgrade"
      "\<not> patch_fails net" "has_row (user_id u) (draft w)"
  proof -
    let ?w = "console_log ''Converting plain text password to hash for user:'' wl"
    have "has_row (user_id u) (rows_of Draft ?w)"
      using h(5) getUserByEmail_draft_frame [OF h(2)] by (simp add: rows_of_def)
    then have "fst (axios_patch net Draft (user_id u) (hashPassword p) ?w) = True"
      using h(4) by (rule axios_patch_succeeds [rotated])
    then obtain w2 where p: "axios_patch net Draft (user_id u) (hashPassword p) ?w = (True, w2)"
      by (cases "axios_patch net Draft (user_id u) (hashPassword p) ?w") simp
    have plain: "user_password u \<noteq> hashPassword p" "user_password u = p"
      using h(3) by (auto simp add: verify_cases)
    have "login_handler net req' w =
        (respond 200 (MessageUser ''Login successful'' (user_id u) (user_email u) (user_name u)),
         console_log ''Password converted to hash successfully'' w2)"
      using plain p by (simp add: login_found [OF h(1) h(2)] Let_def)
    then show ?thesis
      using axios_patch_ok_draft [OF p] by (simp add: respond_def)
  qed
  show ?thesis
    by (intro conjI impI; elim conjE)
      (rule a a' c d [THEN conjunct1] d [THEN conjunct2, THEN conjunct1]
         d [THEN conjunct2, THEN conjunct2, THEN conjunct1]
         d [THEN conjunct2, THEN conjunct2, THEN conjunct2]
         e [THEN conjunct1] e [THEN conjunct2]; assumption)+
qed

lemma example_index_reset_run:
  "index_reset_password network_up example_reset_body example_world =
     (respond 200 (Message ''Password reset successfully''),
      \<lparr>draft = [example_row], published = [example_row\<lparr>v_password := js ''e3d4c17''\<rparr>],
       calls = [GetRows Published None, PatchRow Published (js ''1'') (js ''e3d4c17'')],
       console = [''Old password was plain text, converting to hash format'']\<rparr>)"
  by (subst index_reset_found [OF example_reset_body_ok example_lookup_index])
    (simp add: example_hash_old example_hash_new updateUser_index_def axios_patch_def
      network_up_def rows_of_def has_row_def set_password_def console_log_def example_world_def
      example_user_def example_row_def Let_def)

lemma example_index_change_run:
  "index_change_password network_up example_change_body example_world =
     (respond 200 (Message ''Password changed successfully''),
      \<lparr>draft = [example_row], published = [example_row\<lparr>v_password := js ''e3d4c17''\<rparr>],
       calls = [GetRows Published None, PatchRow Published (js ''1'') (js ''e3d4c17'')],
       console = [''Current password was plain text, converting to hash format'']\<rparr>)"
  by (subst index_change_found [OF example_change_body_ok example_lookup_index])
    (simp add: example_hash_old example_hash_new updateUser_index_def axios_patch_def
      network_up_def rows_of_def has_row_def set_password_def console_log_def example_world_def
      example_user_def example_row_def Let_def)

lemma example_verified_reset_run:
  "verified_reset_handler network_up example_reset example_world =
     (respond 200 (MessageUserId ''Password updated successfully'' (js ''1'')),
      \<lparr>draft = [example_row\<lparr>v_password := js ''e3d4c17''\<rparr>], published = [example_row],
       calls = [GetRows Draft (Some (js ''test@example.com'')),
                PatchRow Draft (js ''1'') (js ''e3d4c17'')],
       console = [''Debug - Stored password:'', ''Debug - Provided password:'',
                  ''Debug - Hashed provided password:'',
                  ''Current password was plain text, converting to hash format'',
                  ''Updating user:'', ''Update successful:'']\<rparr>)"
  by (subst verified_reset_found [OF example_reset_request example_lookup_draft])
    (simp add: example_hash_old example_hash_new updateUser_draft_def axios_patch_def
      network_up_def rows_of_def has_row_def set_password_def console_log_def example_world_def
      example_user_def example_row_def Let_def)

lemma example_hashed_verify:
  "verify (user_password example_hashed_user) (js ''oldpassword123'') = AcceptedHashed"
  by (simp add: verify_cases example_hashed_stored)

lemma example_draft_has_row:
  "\<not> patch_fails network_up \<and> has_row (user_id example_user) (draft example_world)"
  by (simp add: network_up_def has_row_def example_user_def example_world_def example_row_def)

theorem stored_value_after_success_witness:
  "reset_body example_reset_body (js ''test@example.com'') (js ''oldpassword123'') (js ''newpassword123'')
   \<and> change_body example_change_body (js ''test@example.com'') (js ''oldpassword123'') (js ''newpassword123'')
   \<and> reset_request example_reset (js ''test@example.com'') (js ''oldpassword123'') (js ''newpassword123'')
   \<and> login_request example_login (js ''test@example.com'') (js ''oldpassword123'')
   \<and> status (fst (index_reset_password network_up example_reset_body example_world)) = 200
   \<and> status (fst (index_change_password network_up example_change_body example_world)) = 200
   \<and> status (fst (verified_reset_handler network_up example_reset example_world)) = 200
   \<and> verify (user_password example_hashed_user) (js ''oldpassword123'') = AcceptedHashed
   \<and> verify (user_password example_user) (js ''oldpassword123'') = AcceptedPlaintextNeedsUpgrade
   \<and> \<not> patch_fails network_up \<and> has_row (user_id example_user) (draft example_world)
   \<and> stored_password (js ''1'')
        (published (snd (index_reset_password network_up example_reset_body example_world)))
        = Some (hashPassword (js ''newpassword123''))
   \<and> stored_password (js ''1'')
        (published (snd (index_change_password network_up example_change_body example_world)))
        = Some (hashPassword (js ''newpassword123''))
   \<and> stored_password (js ''1'')
        (draft (snd (verified_reset_handler network_up example_reset example_world)))
        = Some (hashPassword (js ''newpassword123''))
   \<and> status (fst (login_handler network_up example_login example_hashed_world)) = 200
   \<and> draft (snd (login_handler network_up example_login example_hashed_world))
        = draft example_hashed_world
   \<and> status (fst (login_handler network_up example_login example_world)) = 200
   \<and> stored_password (js ''1'') (draft (snd (login_handler network_up example_login example_world)))
        = Some (hashPassword (js ''oldpassword123''))"
proof -
  have runs: "status (fst (index_reset_password network_up example_reset_body example_world)) = 200"
    "status (fst (index_change_password network_up example_change_body example_world)) = 200"
    "status (fst (verified_reset_handler network_up example_reset example_world)) = 200"
    by (simp_all add: example_index_reset_run example_index_change_run example_verified_reset_run
        respond_def)
  have ids: "user_id example_user = js ''1''" "user_id example_hashed_user = js ''1''"
    by (simp_all add: example_user_def example_hashed_user_def)
  show ?thesis
    using stored_value_after_success [where net = network_up and w = example_world
        and e = "js ''test@example.com''" and p = "js ''oldpassword123''"
        and n = "js ''newpassword123''" and b = example_reset_body and b' = example_change_body
        and req = example_reset and req' = example_login and u = example_user and u' = example_user
        and wl = "example_world\<lparr>calls := [GetRows Draft (Some (js ''test@example.com''))]\<rparr>"
        and wl' = "example_world\<lparr>calls := [GetRows Published None]\<rparr>"]
      stored_value_after_success [where net = network_up and w = example_hashed_world
        and e = "js ''test@example.com''" and p = "js ''oldpassword123''"
        and req' = example_login and u = example_hashed_user
        and wl = "example_hashed_world\<lparr>calls := [GetRows Draft (Some (js ''test@example.com''))]\<rparr>"]
      example_reset_body_ok example_change_body_ok example_reset_request example_login_request
      example_lookup_index example_lookup_draft example_hashed_lookup_draft runs
      example_hashed_verify example_verify example_draft_has_row ids
    by simp
qed

text \<open>
  Claim C3 as stated fails when the write-back of the login handler fails: the login
  of the example user with the plain-text password is answered 200, and the row
  still holds the plain text, which is not the hash of the presented password.
\<close>

theorem login_write_back_failure_keeps_plaintext:
  "patch_fails network_patch_fails
   \<and> status (fst (login_handler network_patch_fails example_login example_world)) = 200
   \<and> stored_password (js ''1'')
        (draft (snd (login_handler network_patch_fails example_login example_world)))
        = Some (js ''oldpassword123'')
   \<and> stored_password (js ''1'')
        (published (snd (login_handler network_patch_fails example_login example_world)))
        = Some (js ''oldpassword123'')
   \<and> js ''oldpassword123'' \<noteq> hashPassword (js ''oldpassword123'')"
proof -
  have run: "login_handler network_patch_fails example_login example_world =
      (respond 200 (MessageUser ''Login successful'' (js ''1'') (js ''test@example.com'') (js ''Test'')),
       \<lparr>draft = [example_row], published = [example_row],
        calls = [GetRows Draft (Some (js ''test@example.com'')),
                 PatchRow Draft (js ''1'') (js ''1c7f02d0'')],
        console = [''Converting plain text password to hash for user:'',
                   ''Error converting password to hash:'']\<rparr>)"
    by (subst login_found [OF example_login_request example_lookup_draft_patch_fails])
      (simp add: example_hash_old axios_patch_def network_patch_fails_def console_log_def
        example_world_def example_user_def Let_def)
  show ?thesis
    using network_patch_fails_flag
    by (simp add: run respond_def stored_password_def example_row_def example_hash_old)
qed

section \<open>The reset handler without verification\<close>

lemma find_Some_filter: "find P xs = Some r \<Longrightarrow> \<exists>rest. filter P xs = r # rest"
  by (induction xs) (auto split: if_splits)

lemma find_Some_has_row: "find P xs = Some r \<Longrightarrow> has_row (row_id r) xs"
  by (induction xs) (auto simp add: has_row_def split: if_splits)

lemma getUserByEmail_published_found:
  assumes "\<not> get_published_fails net" and "find (\<lambda>r. v_email r = e) (published w) = Some r"
  shows "getUserByEmail_published net e w =
           (Some (row_user r), w\<lparr>calls := calls w @ [GetRows Published (Some e)]\<rparr>)"
proof -
  obtain rest where "filter (\<lambda>r. v_email r = e) (published w) = r # rest"
    using find_Some_filter [OF assms(2)] by blast
  then show ?thesis
    using assms(1)
    by (simp add: getUserByEmail_published_def axios_get_def get_fails_def rows_of_def Let_def)
qed

lemma updateUser_published_succeeds:
  assumes "\<not> patch_fails net" and "has_row rid (published w)"
  shows "updateUser_published net rid pw w =
           (True, w\<lparr>calls := calls w @ [PatchRow Published rid pw],
                     published := set_password rid pw (published w)\<rparr>)"
  using assms by (simp add: updateUser_published_def axios_patch_def rows_of_def Let_def)

lemma reset_password_ignores_oldPassword:
  "reset_password_handler net (req\<lparr>req_body := (req_body req)(''oldPassword'' := old)\<rparr>) w =
     reset_password_handler net req w"
  by (simp add: reset_password_handler_def)

text \<open>
  Claim C9.  The handler of \<open>api/auth/reset-password.js\<close> verifies nothing.  For a
  row of the published table that is the first with its email address, a POST
  request with that address and any non-empty new password, the calls on the table
  service succeeding, is answered 200, and the password column of the row is
  overwritten with the decimal hash of the new password.  The \<open>oldPassword\<close> field
  is not read: with it, without it or with another value the handler does the
  same.
\<close>

theorem reset_password_without_verification:
  "(simple_reset_request req e n \<and> \<not> get_published_fails net \<and> \<not> patch_fails net
      \<and> find (\<lambda>r. v_email r = e) (published w) = Some r \<longrightarrow>
      fst (reset_password_handler net req w) =
        respond 200 (MessageUserId ''Password updated successfully'' (row_id r))
      \<and> published (snd (reset_password_handler net req w)) =
          set_password (row_id r) (hashPassword_decimal n) (published w)
      \<and> stored_password (row_id r) (published (snd (reset_password_handler net req w))) =
          Some (hashPassword_decimal n))
   \<and> reset_password_handler net (req\<lparr>req_body := (req_body req)(''oldPassword'' := old)\<rparr>) w =
       reset_password_handler net req w"
proof -
  have main: "fst (reset_password_handler net req w) =
        respond 200 (MessageUserId ''Password updated successfully'' (row_id r))
      \<and> published (snd (reset_password_handler net req w)) =
          set_password (row_id r) (hashPassword_decimal n) (published w)
      \<and> stored_password (row_id r) (published (snd (reset_password_handler net req w))) =
          Some (hashPassword_decimal n)"
    if h: "simple_reset_request req e n" "\<not> get_published_fails net" "\<not> patch_fails net"
      "find (\<lambda>r. v_email r = e) (published w) = Some r"
  proof -
    let ?wl = "w\<lparr>calls := calls w @ [GetRows Published (Some e)]\<rparr>"
    have row: "has_row (row_id r) (published w)"
      using h(4) by (rule find_Some_has_row)
    then have "has_row (user_id (row_user r)) (published ?wl)"
      by (simp add: row_user_def)
    from updateUser_published_succeeds [OF h(3) this]
    show ?thesis
      using row
      by (simp add: reset_password_found [OF h(1) getUserByEmail_published_found [OF h(2) h(4)]]
          row_user_def stored_password_set_password)
  qed
  show ?thesis
    using main reset_password_ignores_oldPassword by blast
qed

lemma example_simple_request:
  "simple_reset_request example_simple_reset (js ''test@example.com'') (js ''x'')"
  by (simp add: simple_reset_request_def example_simple_reset_def)

lemma example_hash_decimal_x: "hashPassword_decimal (js ''x'') = js ''120''"
  by (simp add: hashPassword_decimal_def hash_acc_def js_def hash_step_def
      shiftLeft5_def toInt32_def charCode_def toString_decimal_def
      digits_radix.simps digit_unit_def)

lemma example_find_row:
  "find (\<lambda>r. v_email r = js ''test@example.com'') (published example_world) = Some example_row"
  by (simp add: example_world_def example_row_def)

theorem reset_password_without_verification_witness:
  "simple_reset_request example_simple_reset (js ''test@example.com'') (js ''x'')
   \<and> \<not> get_published_fails network_up \<and> \<not> patch_fails network_up
   \<and> find (\<lambda>r. v_email r = js ''test@example.com'') (published example_world) = Some example_row
   \<and> req_body example_simple_reset ''oldPassword'' = None
   \<and> status (fst (reset_password_handler network_up example_simple_reset example_world)) = 200
   \<and> published (snd (reset_password_handler network_up example_simple_reset example_world)) =
        [example_row\<lparr>v_password := js ''120''\<rparr>]
   \<and> stored_password (js ''1'')
        (published (snd (reset_password_handler network_up example_simple_reset example_world)))
        = Some (js ''120'')
   \<and> reset_password_handler network_up
        (example_simple_reset\<lparr>req_body := (req_body example_simple_reset)(''oldPassword'' \<mapsto> js ''wrong'')\<rparr>)
        example_world
      = reset_password_handler network_up example_simple_reset example_world"
proof -
  have up: "\<not> get_published_fails network_up" "\<not> patch_fails network_up"
    by (simp_all add: network_up_def)
  have no_old: "req_body example_simple_reset ''oldPassword'' = None"
    by (simp add: example_simple_reset_def)
  have rid: "row_id example_row = js ''1''"
    by (simp add: example_row_def)
  have rows: "set_password (js ''1'') (js ''120'') (published example_world) =
      [example_row\<lparr>v_password := js ''120''\<rparr>]"
    by (simp add: set_password_def example_world_def example_row_def)
  show ?thesis
    using reset_password_without_verification [where req = example_simple_reset
        and e = "js ''test@example.com''" and n = "js ''x''" and net = network_up
        and w = example_world and r = example_row and old = "Some (js ''wrong'')"]
      example_simple_request up example_find_row no_old rid rows
    by (simp add: example_hash_decimal_x respond_def stored_password_def example_row_def)
qed

section \<open>The Express application with the simulated user\<close>

lemma server_reset_valid:
  assumes "reset_body b e p n"
  shows "server_reset_password b w =
     (if e = js ''test@example.com'' \<and> p = js ''oldpassword123''
      then (respond 200 (Message ''Password reset successfully''),
            console_log ''Password updated for'' w)
      else (respond 400 (Error ''Invalid email or old password''), w))"
proof -
  from assms have "n \<noteq> []" by (auto simp add: reset_body_def)
  with assms show ?thesis
    by (simp add: reset_body_def server_reset_password_def Let_def falsy_def str_of_def)
qed

lemma server_change_valid:
  assumes "change_body b e p n"
  shows "server_change_password b w =
     (if e = js ''test@example.com'' \<and> p = js ''oldpassword123''
      then (respond 200 (Message ''Password changed successfully''),
            console_log ''Password changed for'' w)
      else (respond 400 (Error ''Invalid email or current password''), w))"
proof -
  from assms have "n \<noteq> []" by (auto simp add: change_body_def)
  with assms show ?thesis
    by (simp add: change_body_def server_change_password_def Let_def falsy_def str_of_def)
qed

text \<open>
  Claim C10.  The two routes of \<open>server.js\<close> make no call on the table service and
  leave both versions of the table as they are, whatever the request.  For a body
  that passes the field and length checks, the answer is 200 exactly when the email
  is \<open>test@example.com\<close> and the old (or current) password is \<open>oldpassword123\<close>,
  and 400 otherwise.
\<close>

theorem server_simulated_user:
  "draft (snd (server_reset_password b w)) = draft w
   \<and> published (snd (server_reset_password b w)) = published w
   \<and> calls (snd (server_reset_password b w)) = calls w
   \<and> draft (snd (server_change_password b' w)) = draft w
   \<and> published (snd (server_change_password b' w)) = published w
   \<and> calls (snd (server_change_password b' w)) = calls w
   \<and> (reset_body b e p n \<longrightarrow>
        (status (fst (server_reset_password b w)) = 200)
          = (e = js ''test@example.com'' \<and> p = js ''oldpassword123'')
        \<and> (status (fst (server_reset_password b w)) = 400)
          = (\<not> (e = js ''test@example.com'' \<and> p = js ''oldpassword123'')))
   \<and> (change_body b' e p n \<longrightarrow>
        (status (fst (server_change_password b' w)) = 200)
          = (e = js ''test@example.com'' \<and> p = js ''oldpassword123'')
        \<and> (status (fst (server_change_password b' w)) = 400)
          = (\<not> (e = js ''test@example.com'' \<and> p = js ''oldpassword123'')))"
proof -
  have frame: "draft (snd (server_reset_password b w)) = draft w
      \<and> published (snd (server_reset_password b w)) = published w
      \<and> calls (snd (server_reset_password b w)) = calls w"
    by (simp add: server_reset_password_def Let_def)
  have frame': "draft (snd (server_change_password b' w)) = draft w
      \<and> published (snd (server_change_password b' w)) = published w
      \<and> calls (snd (server_change_password b' w)) = calls w"
    by (simp add: server_change_password_def Let_def)
  have r: "(status (fst (server_reset_password b w)) = 200)
          = (e = js ''test@example.com'' \<and> p = js ''oldpassword123'')
        \<and> (status (fst (server_reset_password b w)) = 400)
          = (\<not> (e = js ''test@example.com'' \<and> p = js ''oldpassword123''))"
    if "reset_body b e p n"
    by (simp add: server_reset_valid [OF that] respond_def)
  have c: "(status (fst (server_change_password b' w)) = 200)
          = (e = js ''test@example.com'' \<and> p = js ''oldpassword123'')
        \<and> (status (fst (server_change_password b' w)) = 400)
          = (\<not> (e = js ''test@example.com'' \<and> p = js ''oldpassword123''))"
    if "change_body b' e p n"
    by (simp add: server_change_valid [OF that] respond_def)
  from frame frame' r c show ?thesis by blast
qed

theorem server_simulated_user_witness:
  "reset_body example_reset_body (js ''test@example.com'') (js ''oldpassword123'') (js ''newpassword123'')
   \<and> change_body example_change_body (js ''test@example.com'') (js ''oldpassword123'') (js ''newpassword123'')
   \<and> reset_body example_wrong_body (js ''test@example.com'') (js ''wrong'') (js ''newpassword123'')
   \<and> change_body example_wrong_change_body (js ''test@example.com'') (js ''wrong'') (js ''newpassword123'')
   \<and> status (fst (server_reset_password example_reset_body example_world)) = 200
   \<and> status (fst (server_change_password example_change_body example_world)) = 200
   \<and> status (fst (server_reset_password example_wrong_body example_world)) = 400
   \<and> status (fst (server_change_password example_wrong_change_body example_world)) = 400
   \<and> calls (snd (server_reset_password example_reset_body example_world)) = []
   \<and> published (snd (server_change_password example_change_body example_world)) = [example_row]"
proof -
  have w: "calls example_world = []" "published example_world = [example_row]"
    by (simp_all add: example_world_def)
  show ?thesis
    using server_simulated_user [where b = example_reset_body and b' = example_change_body
        and e = "js ''test@example.com''" and p = "js ''oldpassword123''"
        and n = "js ''newpassword123''" and w = example_world]
      server_simulated_user [where b = example_wrong_body and b' = example_wrong_change_body
        and e = "js ''test@example.com''" and p = "js ''wrong''"
        and n = "js ''newpassword123''" and w = example_world]
      example_reset_body_ok example_change_body_ok example_wrong_body_ok
      example_wrong_change_body_ok w
    by simp
qed

end
